theory Spec2Isabelle
  imports Complex_Main "HOL-Library.Word" "HOL-Library.Sublist" "HOL-Library.AList"
begin

unbundle bit_operations_syntax

section \<open>JavaScript strings\<close>

text \<open>
  A JavaScript string is a sequence of UTF-16 code units; \<open>===\<close> on strings, \<open>trim\<close>,
  \<open>indexOf\<close> and a regular expression without the \<open>u\<close> flag all work on code units.
  \<open>js\<close> reads an ASCII literal of the source as such a string.
\<close>

type_synonym cu = "16 word"
type_synonym jsstring = "cu list"

definition js :: "string \<Rightarrow> jsstring" where
  "js s = map of_char s"

text \<open>
  The code units that ECMAScript calls WhiteSpace or LineTerminator. They are what
  \<open>String.prototype.trim\<close> strips and what \<open>\s\<close> matches.
\<close>

definition isWhiteSpace :: "cu \<Rightarrow> bool" where
  "isWhiteSpace c =
     (c = 0x0009 \<or> c = 0x000A \<or> c = 0x000B \<or> c = 0x000C \<or> c = 0x000D \<or> c = 0x0020
      \<or> c = 0x00A0 \<or> c = 0x1680 \<or> (0x2000 \<le> c \<and> c \<le> 0x200A)
      \<or> c = 0x2028 \<or> c = 0x2029 \<or> c = 0x202F \<or> c = 0x205F \<or> c = 0x3000 \<or> c = 0xFEFF)"

definition trimEnd :: "jsstring \<Rightarrow> jsstring" where
  "trimEnd s = rev (dropWhile isWhiteSpace (rev s))"

definition trim :: "jsstring \<Rightarrow> jsstring" where
  "trim s = trimEnd (dropWhile isWhiteSpace s)"

section \<open>The platform functions behind \<open>b64DecodeUnicode\<close>\<close>

subsection \<open>\<open>atob\<close>: forgiving Base64 decoding\<close>

text \<open>
  \<open>atob\<close> removes ASCII whitespace, removes one or two trailing \<open>=\<close> when the length is
  a multiple of four, fails when the remaining length is 1 modulo 4 or a character is
  outside the Base64 alphabet, and otherwise turns every six bits into output, dropping
  the bits left over. A failure is the thrown exception, here \<open>None\<close>. The result is a
  binary string, one byte per character; the source copies it with \<open>charCodeAt\<close> into a
  \<open>Uint8Array\<close>, so the model produces the bytes at once.
\<close>

definition isAsciiWhitespace :: "cu \<Rightarrow> bool" where
  "isAsciiWhitespace c = (c = 0x09 \<or> c = 0x0A \<or> c = 0x0C \<or> c = 0x0D \<or> c = 0x20)"

definition base64Index :: "cu \<Rightarrow> nat option" where
  "base64Index c =
     (if 0x41 \<le> c \<and> c \<le> 0x5A then Some (unat c - 0x41)
      else if 0x61 \<le> c \<and> c \<le> 0x7A then Some (unat c - 0x61 + 26)
      else if 0x30 \<le> c \<and> c \<le> 0x39 then Some (unat c - 0x30 + 52)
      else if c = 0x2B then Some 62
      else if c = 0x2F then Some 63
      else None)"

definition stripPadding :: "jsstring \<Rightarrow> jsstring" where
  "stripPadding s =
     (if length s mod 4 = 0 then
        (if s \<noteq> [] \<and> last s = 0x3D then
           (if butlast s \<noteq> [] \<and> last (butlast s) = 0x3D then butlast (butlast s)
            else butlast s)
         else s)
      else s)"

fun sextets :: "jsstring \<Rightarrow> nat list option" where
  "sextets [] = Some []"
| "sextets (c # cs) =
     (case base64Index c of
        None \<Rightarrow> None
      | Some n \<Rightarrow> (case sextets cs of None \<Rightarrow> None | Some ns \<Rightarrow> Some (n # ns)))"

fun sextetBytes :: "nat list \<Rightarrow> 8 word list" where
  "sextetBytes (a # b # c # d # r) =
     of_nat (a * 4 + b div 16) # of_nat ((b mod 16) * 16 + c div 4) # of_nat ((c mod 4) * 64 + d)
       # sextetBytes r"
| "sextetBytes [a, b, c] = [of_nat (a * 4 + b div 16), of_nat ((b mod 16) * 16 + c div 4)]"
| "sextetBytes [a, b] = [of_nat (a * 4 + b div 16)]"
| "sextetBytes _ = []"

definition atob :: "jsstring \<Rightarrow> 8 word list option" where
  "atob s =
     (let d = stripPadding (filter (\<lambda>c. \<not> isAsciiWhitespace c) s) in
      if length d mod 4 = 1 then None
      else (case sextets d of None \<Rightarrow> None | Some ns \<Rightarrow> Some (sextetBytes ns)))"

subsection \<open>\<open>new TextDecoder().decode\<close>: UTF-8 with replacement\<close>

text \<open>
  The decoder of the Encoding standard, in its default mode: a malformed sequence becomes
  U+FFFD and decoding goes on (at the offending byte when it was a bad continuation), a
  leading byte order mark is dropped, and a code point beyond the basic plane becomes a
  surrogate pair. It never throws.
\<close>

record utf8_state =
  codePoint :: nat
  bytesSeen :: nat
  bytesNeeded :: nat
  lowerBoundary :: "8 word"
  upperBoundary :: "8 word"

definition utf8_init :: utf8_state where
  "utf8_init = \<lparr>codePoint = 0, bytesSeen = 0, bytesNeeded = 0,
                lowerBoundary = 0x80, upperBoundary = 0xBF\<rparr>"

function utf8_decode :: "utf8_state \<Rightarrow> 8 word list \<Rightarrow> nat list" where
  "utf8_decode st [] = (if bytesNeeded st \<noteq> 0 then [0xFFFD] else [])"
| "utf8_decode st (b # bs) =
     (if bytesNeeded st = 0 then
        (if b \<le> 0x7F then unat b # utf8_decode st bs
         else if 0xC2 \<le> b \<and> b \<le> 0xDF then
           utf8_decode (st\<lparr>bytesNeeded := 1, codePoint := unat (b AND 0x1F)\<rparr>) bs
         else if 0xE0 \<le> b \<and> b \<le> 0xEF then
           utf8_decode (st\<lparr>lowerBoundary := (if b = 0xE0 then 0xA0 else lowerBoundary st),
                           upperBoundary := (if b = 0xED then 0x9F else upperBoundary st),
                           bytesNeeded := 2, codePoint := unat (b AND 0xF)\<rparr>) bs
         else if 0xF0 \<le> b \<and> b \<le> 0xF4 then
           utf8_decode (st\<lparr>lowerBoundary := (if b = 0xF0 then 0x90 else lowerBoundary st),
                           upperBoundary := (if b = 0xF4 then 0x8F else upperBoundary st),
                           bytesNeeded := 3, codePoint := unat (b AND 0x7)\<rparr>) bs
         else 0xFFFD # utf8_decode st bs)
      else if \<not> (lowerBoundary st \<le> b \<and> b \<le> upperBoundary st) then
        0xFFFD # utf8_decode utf8_init (b # bs)
      else
        (let st' = st\<lparr>lowerBoundary := 0x80, upperBoundary := 0xBF,
                       codePoint := codePoint st * 64 + unat (b AND 0x3F),
                       bytesSeen := bytesSeen st + 1\<rparr>
         in if bytesSeen st' \<noteq> bytesNeeded st' then utf8_decode st' bs
            else codePoint st' # utf8_decode utf8_init bs))"
  by pat_completeness auto
termination
  by (relation "measure (\<lambda>(st, bs). 2 * length bs + (if bytesNeeded st = 0 then 0 else 1))")
     (auto simp: utf8_init_def)

definition stripBOM :: "nat list \<Rightarrow> nat list" where
  "stripBOM cps = (case cps of [] \<Rightarrow> [] | c # r \<Rightarrow> if c = 0xFEFF then r else cps)"

definition utf16 :: "nat \<Rightarrow> jsstring" where
  "utf16 cp =
     (if cp < 0x10000 then [of_nat cp]
      else [of_nat (0xD800 + (cp - 0x10000) div 0x400),
            of_nat (0xDC00 + (cp - 0x10000) mod 0x400)])"

definition textDecode :: "8 word list \<Rightarrow> jsstring" where
  "textDecode bytes = concat (map utf16 (stripBOM (utf8_decode utf8_init bytes)))"

section \<open>The trigger table\<close>

text \<open>
  \<open>b64DecodeUnicode\<close> catches the exception of \<open>atob\<close> and returns the empty string.
  The warning it writes to the console is not part of the model.
\<close>

definition b64DecodeUnicode :: "jsstring \<Rightarrow> jsstring" where
  "b64DecodeUnicode str = (case atob str of None \<Rightarrow> [] | Some bytes \<Rightarrow> textDecode bytes)"

text \<open>
  \<open>EGGS\<close> in the order \<open>Object.entries\<close> enumerates it: no key is an array index, so
  the order is that of the object literal.
\<close>

definition EGGS :: "(jsstring \<times> jsstring) list" where
  "EGGS = [(js ''6L6+5aaZ56eR5oqA'', js ''5Y+R5p2l6LS655S1''),
           (js ''54G16Laz5pe25Luj'', js ''56Wd5L2g5oiQ5Yqf''),
           (js ''5Zug5YWL5pav5pm66IO9'', js ''56Wd6ICB5p2/5aW95biF77yB''),
           (js ''6auY5pOO5py655S1'', js ''5oiR54ix5bCP5rS+77yB''),
           (js ''5Zyw55Oc5py65LmZ5Lq6'', js ''5Y+R5p2l54Oo5Zyw55Oc'')]"

text \<open>The loop over the entries: the first key whose decoding equals the prompt wins.\<close>

fun eggLoop :: "jsstring \<Rightarrow> (jsstring \<times> jsstring) list \<Rightarrow> jsstring option" where
  "eggLoop trimPrompt [] = None"
| "eggLoop trimPrompt ((key, val) # rest) =
     (if trimPrompt = b64DecodeUnicode key then Some (b64DecodeUnicode val)
      else eggLoop trimPrompt rest)"

section \<open>JavaScript values\<close>

text \<open>
  What \<open>JSON.parse\<close> returns and what the adapter builds from it is untyped (the source
  declares the descriptors as \<open>any\<close>), so the model keeps JavaScript values: an object is
  its list of own properties in insertion order, and \<open>JUndefined\<close> is what reading a
  missing property gives. A number is its numeric value; the only things the adapter does
  with a number are to test it for zero and to pass it on, so neither rounding nor the
  sign of zero plays a part.
\<close>

datatype jsval =
    JUndefined
  | JNull
  | JBool bool
  | JNum real
  | JStr jsstring
  | JArr "jsval list"
  | JObj "(jsstring \<times> jsval) list"

datatype error = TypeError | SyntaxError | ServiceError

fun truthy :: "jsval \<Rightarrow> bool" where
  "truthy JUndefined = False"
| "truthy JNull = False"
| "truthy (JBool b) = b"
| "truthy (JNum r) = (r \<noteq> 0)"
| "truthy (JStr s) = (s \<noteq> [])"
| "truthy (JArr xs) = True"
| "truthy (JObj al) = True"

text \<open>The operators \<open>a || b\<close> and \<open>a ?? b\<close>.\<close>

definition orElse :: "jsval \<Rightarrow> jsval \<Rightarrow> jsval" where
  "orElse a b = (if truthy a then a else b)"

definition isNullish :: "jsval \<Rightarrow> bool" where
  "isNullish v = (v = JUndefined \<or> v = JNull)"

definition nullish :: "jsval \<Rightarrow> jsval \<Rightarrow> jsval" where
  "nullish a b = (if isNullish a then b else a)"

text \<open>
  Reading a property. \<open>field\<close> is the read on a value that is neither \<open>null\<close> nor
  \<open>undefined\<close>: an own property of an object, and \<open>undefined\<close> otherwise (none of the
  names the adapter reads is defined on a prototype of a parsed value). \<open>getProp\<close> is
  the read on any value, which throws on \<open>null\<close> and \<open>undefined\<close>.
\<close>

definition field :: "jsval \<Rightarrow> string \<Rightarrow> jsval" where
  "field v name =
     (case v of
        JObj al \<Rightarrow> (case map_of al (js name) of None \<Rightarrow> JUndefined | Some w \<Rightarrow> w)
      | _ \<Rightarrow> JUndefined)"

definition getProp :: "jsval \<Rightarrow> string \<Rightarrow> error + jsval" where
  "getProp v name = (if isNullish v then Inl TypeError else Inr (field v name))"

text \<open>
  \<open>v?.[i]\<close> for a literal index: \<open>undefined\<close> on \<open>null\<close> and \<open>undefined\<close>, the
  element of an array, the one-character string of a string, the property named by the
  decimal digits of \<open>i\<close> of an object.
\<close>

function decimal :: "nat \<Rightarrow> jsstring" where
  "decimal n = (if n < 10 then [of_nat (48 + n)]
                else decimal (n div 10) @ [of_nat (48 + n mod 10)])"
  by pat_completeness auto
termination
  by (relation "measure (\<lambda>n. n)") auto

declare decimal.simps [simp del]

definition optIndex :: "jsval \<Rightarrow> nat \<Rightarrow> jsval" where
  "optIndex v i =
     (case v of
        JArr xs \<Rightarrow> (if i < length xs then xs ! i else JUndefined)
      | JStr s \<Rightarrow> (if i < length s then JStr [s ! i] else JUndefined)
      | JObj al \<Rightarrow> (case map_of al (decimal i) of None \<Rightarrow> JUndefined | Some w \<Rightarrow> w)
      | _ \<Rightarrow> JUndefined)"

text \<open>
  The conversion of a value to a property key, as \<open>newLinks[l.id]\<close> needs it. The text
  of a number is \<open>Number::toString\<close>, a parameter of the model. An array is its elements
  joined by commas, \<open>null\<close> elements empty. A parsed object is \<open>[object Object]\<close>
  unless it has an own property \<open>toString\<close>: that property is not callable,
  \<open>valueOf\<close> then yields no primitive either, and the conversion throws.
\<close>

fun toPropertyKey :: "(real \<Rightarrow> jsstring) \<Rightarrow> jsval \<Rightarrow> error + jsstring"
  and join :: "(real \<Rightarrow> jsstring) \<Rightarrow> jsval list \<Rightarrow> error + jsstring" where
  "toPropertyKey ns JUndefined = Inr (js ''undefined'')"
| "toPropertyKey ns JNull = Inr (js ''null'')"
| "toPropertyKey ns (JBool b) = Inr (if b then js ''true'' else js ''false'')"
| "toPropertyKey ns (JNum r) = Inr (ns r)"
| "toPropertyKey ns (JStr s) = Inr s"
| "toPropertyKey ns (JArr xs) = join ns xs"
| "toPropertyKey ns (JObj al) =
     (case map_of al (js ''toString'') of
        None \<Rightarrow> Inr (js ''[object Object]'')
      | Some w \<Rightarrow> Inl TypeError)"
| "join ns [] = Inr []"
| "join ns (x # xs) =
     (case (if isNullish x then Inr [] else toPropertyKey ns x) of
        Inl e \<Rightarrow> Inl e
      | Inr s \<Rightarrow>
          (if xs = [] then Inr s
           else (case join ns xs of Inl e \<Rightarrow> Inl e | Inr t \<Rightarrow> Inr (s @ js '','' @ t))))"

section \<open>The robot data mapper\<close>

definition zeroOrigin :: jsval where
  "zeroOrigin =
     JObj [(js ''xyz'', JObj [(js ''x'', JNum 0), (js ''y'', JNum 0), (js ''z'', JNum 0)]),
           (js ''rpy'', JObj [(js ''r'', JNum 0), (js ''p'', JNum 0), (js ''y'', JNum 0)])]"

text \<open>The object literal assigned to \<open>newLinks[l.id]\<close>.\<close>

definition linkRecord :: "jsval \<Rightarrow> jsval" where
  "linkRecord l =
     (let visualType = field l ''visualType'';
          dimensions =
            JObj [(js ''x'', orElse (optIndex (field l ''dimensions'') 0) (JNum 0.1)),
                  (js ''y'', orElse (optIndex (field l ''dimensions'') 1) (JNum 0.1)),
                  (js ''z'', orElse (optIndex (field l ''dimensions'') 2) (JNum 0.1))]
      in JObj
          [(js ''id'', field l ''id''),
           (js ''name'', field l ''name''),
           (js ''inertial'',
              JObj [(js ''mass'', orElse (field l ''mass'') (JNum 1.0)),
                    (js ''inertia'',
                       JObj [(js ''ixx'', JNum 0.1), (js ''ixy'', JNum 0), (js ''ixz'', JNum 0),
                             (js ''iyy'', JNum 0.1), (js ''iyz'', JNum 0),
                             (js ''izz'', JNum 0.1)])]),
           (js ''visual'',
              JObj [(js ''type'', visualType),
                    (js ''dimensions'', dimensions),
                    (js ''color'', orElse (field l ''color'') (JStr (js ''#3b82f6''))),
                    (js ''origin'', zeroOrigin)]),
           (js ''collision'',
              JObj [(js ''type'', visualType),
                    (js ''dimensions'', dimensions),
                    (js ''color'', JStr (js ''#ef4444'')),
                    (js ''origin'', zeroOrigin)])])"

text \<open>The object literal assigned to \<open>newJoints[j.id]\<close>.\<close>

definition jointRecord :: "jsval \<Rightarrow> jsval" where
  "jointRecord j =
     JObj
       [(js ''id'', field j ''id''),
        (js ''name'', field j ''name''),
        (js ''type'', field j ''type''),
        (js ''parentLinkId'', field j ''parentLinkId''),
        (js ''childLinkId'', field j ''childLinkId''),
        (js ''origin'',
           JObj [(js ''xyz'',
                    JObj [(js ''x'', orElse (optIndex (field j ''originXYZ'') 0) (JNum 0)),
                          (js ''y'', orElse (optIndex (field j ''originXYZ'') 1) (JNum 0)),
                          (js ''z'', orElse (optIndex (field j ''originXYZ'') 2) (JNum 0))]),
                 (js ''rpy'',
                    JObj [(js ''r'', orElse (optIndex (field j ''originRPY'') 0) (JNum 0)),
                          (js ''p'', orElse (optIndex (field j ''originRPY'') 1) (JNum 0)),
                          (js ''y'', orElse (optIndex (field j ''originRPY'') 2) (JNum 0))])]),
        (js ''axis'',
           JObj [(js ''x'', orElse (optIndex (field j ''axis'') 0) (JNum 0)),
                 (js ''y'', orElse (optIndex (field j ''axis'') 1) (JNum 0)),
                 (js ''z'', orElse (optIndex (field j ''axis'') 2) (JNum 1))]),
        (js ''limit'',
           JObj [(js ''lower'', nullish (field j ''lowerLimit'') (JNum (- 1.57))),
                 (js ''upper'', nullish (field j ''upperLimit'') (JNum 1.57)),
                 (js ''effort'', nullish (field j ''effortLimit'') (JNum 100)),
                 (js ''velocity'', nullish (field j ''velocityLimit'') (JNum 10))]),
        (js ''dynamics'', JObj [(js ''damping'', JNum 0), (js ''friction'', JNum 0)]),
        (js ''hardware'',
           JObj [(js ''armature'', JNum 0),
                 (js ''motorType'', orElse (field j ''motorType'') (JStr (js ''None''))),
                 (js ''motorId'', JStr []),
                 (js ''motorDirection'', JNum 1)])]"

text \<open>
  One run of a \<open>forEach\<close> callback. The first property read throws on a \<open>null\<close> element
  (later reads of the same element then cannot), the conversion of the id to a key may
  throw, and the assignment replaces the entry of an existing key or appends a new one.
  The key \<open>__proto__\<close> is the exception: assigning to it calls the setter inherited
  from \<open>Object.prototype\<close>, which changes the prototype and creates no own property.
  The entries are kept in insertion order; JavaScript enumerates keys that are array
  indices first, which no property below depends on.
\<close>

definition setEntry ::
  "(real \<Rightarrow> jsstring) \<Rightarrow> (jsval \<Rightarrow> jsval) \<Rightarrow> jsval \<Rightarrow> (jsstring \<times> jsval) list
     \<Rightarrow> error + (jsstring \<times> jsval) list" where
  "setEntry ns record d entries =
     (if isNullish d then Inl TypeError
      else (case toPropertyKey ns (field d ''id'') of
              Inl e \<Rightarrow> Inl e
            | Inr key \<Rightarrow>
                Inr (if key = js ''__proto__'' then entries
                     else AList.update key (record d) entries)))"

fun forEach ::
  "(real \<Rightarrow> jsstring) \<Rightarrow> (jsval \<Rightarrow> jsval) \<Rightarrow> jsval list \<Rightarrow> (jsstring \<times> jsval) list
     \<Rightarrow> error + (jsstring \<times> jsval) list" where
  "forEach ns record [] entries = Inr entries"
| "forEach ns record (d # ds) entries =
     (case setEntry ns record d entries of
        Inl e \<Rightarrow> Inl e
      | Inr entries' \<Rightarrow> forEach ns record ds entries')"

text \<open>
  \<open>data.links && Array.isArray(data.links)\<close> holds exactly of an array, since every array
  is truthy.
\<close>

definition newLinks :: "(real \<Rightarrow> jsstring) \<Rightarrow> jsval \<Rightarrow> error + (jsstring \<times> jsval) list" where
  "newLinks ns data =
     (case field data ''links'' of JArr ls \<Rightarrow> forEach ns linkRecord ls [] | _ \<Rightarrow> Inr [])"

definition newJoints :: "(real \<Rightarrow> jsstring) \<Rightarrow> jsval \<Rightarrow> error + (jsstring \<times> jsval) list" where
  "newJoints ns data =
     (case field data ''joints'' of JArr jts \<Rightarrow> forEach ns jointRecord jts [] | _ \<Rightarrow> Inr [])"

text \<open>The block under \<open>if (data)\<close>: \<open>data\<close> is truthy there, so reading it cannot throw.\<close>

definition finalRobotState :: "(real \<Rightarrow> jsstring) \<Rightarrow> jsval \<Rightarrow> error + jsval" where
  "finalRobotState ns data =
     (case newLinks ns data of
        Inl e \<Rightarrow> Inl e
      | Inr links \<Rightarrow>
          (case newJoints ns data of
             Inl e \<Rightarrow> Inl e
           | Inr joints \<Rightarrow>
               Inr (JObj [(js ''name'', orElse (field data ''name'') (JStr (js ''modified_robot''))),
                          (js ''links'', JObj links),
                          (js ''joints'', JObj joints),
                          (js ''rootLinkId'', field data ''rootLinkId'')])))"

text \<open>
  The result of the adapter. \<open>robotData\<close> is \<open>None\<close> both when the property is not
  there and when it holds \<open>undefined\<close>.
\<close>

record AIResponse =
  explanation :: jsval
  actionType :: jsval
  robotData :: "jsval option"

text \<open>The code after \<open>JSON.parse\<close>, on the parsed value.\<close>

definition mapResult :: "(real \<Rightarrow> jsstring) \<Rightarrow> jsval \<Rightarrow> error + AIResponse" where
  "mapResult ns result =
     (case getProp result ''robotData'' of
        Inl e \<Rightarrow> Inl e
      | Inr data \<Rightarrow>
          (case (if truthy data
                 then (case finalRobotState ns data of Inl e \<Rightarrow> Inl e | Inr s \<Rightarrow> Inr (Some s))
                 else Inr None) of
             Inl e \<Rightarrow> Inl e
           | Inr final \<Rightarrow>
               Inr \<lparr>explanation = field result ''explanation'',
                    actionType = field result ''actionType'',
                    robotData = final\<rparr>))"

section \<open>JSON extraction\<close>

subsection \<open>The regular expression\<close>

text \<open>
  A backtracking matcher for the constructs of the one regular expression of the source:
  a literal, a greedy optional literal \<open>(?:w)?\<close>, a greedy star \<open>c*\<close> and the lazy
  star inside the capture group \<open>(c*?)\<close>, both over a character class. Alternatives are
  tried in the order ECMAScript tries them: greedy takes first, lazy takes last. The
  third argument is the text captured so far; a successful match returns the capture.
\<close>

datatype node =
    Lit jsstring
  | OptGreedy jsstring
  | StarGreedy "cu \<Rightarrow> bool"
  | CaptureLazy "cu \<Rightarrow> bool"

fun exec :: "node list \<Rightarrow> jsstring \<Rightarrow> jsstring \<Rightarrow> jsstring option" where
  "exec [] xs cap = Some cap"
| "exec (Lit w # r) xs cap =
     (if prefix w xs then exec r (drop (length w) xs) cap else None)"
| "exec (OptGreedy w # r) xs cap =
     (if prefix w xs
      then (case exec r (drop (length w) xs) cap of Some c \<Rightarrow> Some c | None \<Rightarrow> exec r xs cap)
      else exec r xs cap)"
| "exec (StarGreedy p # r) [] cap = exec r [] cap"
| "exec (StarGreedy p # r) (x # xs) cap =
     (if p x
      then (case exec (StarGreedy p # r) xs cap of
              Some c \<Rightarrow> Some c
            | None \<Rightarrow> exec r (x # xs) cap)
      else exec r (x # xs) cap)"
| "exec (CaptureLazy p # r) xs cap =
     (case exec r xs cap of
        Some c \<Rightarrow> Some c
      | None \<Rightarrow>
          (case xs of
             [] \<Rightarrow> None
           | x # xs' \<Rightarrow> if p x then exec (CaptureLazy p # r) xs' (cap @ [x]) else None))"

text \<open>\<open>String.prototype.match\<close> without the \<open>g\<close> flag: the match at the leftmost start.\<close>

fun matchFirst :: "node list \<Rightarrow> jsstring \<Rightarrow> jsstring option" where
  "matchFirst re [] = exec re [] []"
| "matchFirst re (x # xs) =
     (case exec re (x # xs) [] of Some c \<Rightarrow> Some c | None \<Rightarrow> matchFirst re xs)"

text \<open>The expression \<^verbatim>\<open>/```(?:json)?\s*([\s\S]*?)\s*```/\<close>.\<close>

definition fenceRegex :: "node list" where
  "fenceRegex =
     [Lit (js ''```''), OptGreedy (js ''json''), StarGreedy isWhiteSpace,
      CaptureLazy (\<lambda>c. True), StarGreedy isWhiteSpace, Lit (js ''```'')]"

definition jsonBlockMatch :: "jsstring \<Rightarrow> jsstring option" where
  "jsonBlockMatch text = matchFirst fenceRegex text"

subsection \<open>\<open>indexOf\<close>, \<open>lastIndexOf\<close>, \<open>substring\<close>\<close>

fun indexOf :: "cu \<Rightarrow> jsstring \<Rightarrow> int" where
  "indexOf c [] = - 1"
| "indexOf c (x # xs) =
     (if x = c then 0 else (let i = indexOf c xs in if i = - 1 then - 1 else i + 1))"

definition lastIndexOf :: "cu \<Rightarrow> jsstring \<Rightarrow> int" where
  "lastIndexOf c xs =
     (let i = indexOf c (rev xs) in if i = - 1 then - 1 else int (length xs) - 1 - i)"

definition substring :: "jsstring \<Rightarrow> int \<Rightarrow> int \<Rightarrow> jsstring" where
  "substring s a b =
     (let n = int (length s);
          a' = min (max a 0) n;
          b' = min (max b 0) n;
          from = min a' b';
          to = max a' b'
      in take (nat (to - from)) (drop (nat from) s))"

subsection \<open>The extraction step\<close>

definition jsonString :: "jsstring \<Rightarrow> jsstring" where
  "jsonString text =
     (case jsonBlockMatch text of
        Some cap \<Rightarrow> cap
      | None \<Rightarrow>
          (let firstOpen = indexOf 0x7B text;
               lastClose = lastIndexOf 0x7D text
           in if firstOpen \<noteq> - 1 \<and> lastClose \<noteq> - 1 \<and> lastClose > firstOpen
              then substring text firstOpen (lastClose + 1)
              else []))"

section \<open>The adapter\<close>

text \<open>
  What the adapter reads from its surroundings: the credential of the process
  environment, the generation service (it answers a request with a thrown error, with a
  response without text, or with a text), \<open>JSON.parse\<close> (\<open>None\<close> is its
  \<open>SyntaxError\<close>) and the text of a number. The request carries the prompt as its
  contents; the system instruction is computed from the current robot and the motor
  library, which the request keeps as they are. The second component of the adapter's
  result lists the requests sent to the service. Console output is left out, and so is
  the construction of the client and of the context snapshots before the \<open>try\<close> block,
  which reads the typed arguments and sends nothing.
\<close>

record ('r, 'm) request =
  model :: jsstring
  contents :: jsstring
  contextRobot :: 'r
  contextLibrary :: 'm

record ('r, 'm) platform =
  API_KEY :: "jsstring option"
  generateContent :: "('r, 'm) request \<Rightarrow> error + jsstring option"
  JSON_parse :: "jsstring \<Rightarrow> jsval option"
  Number_toString :: "real \<Rightarrow> jsstring"

text \<open>The body of the \<open>try\<close> block.\<close>

definition tryBlock :: "('r, 'm) platform \<Rightarrow> ('r, 'm) request \<Rightarrow> error + AIResponse option" where
  "tryBlock P req =
     (case generateContent P req of
        Inl e \<Rightarrow> Inl e
      | Inr None \<Rightarrow> Inr None
      | Inr (Some text) \<Rightarrow>
          if text = [] then Inr None
          else if jsonString text = [] then Inr None
          else (case JSON_parse P (jsonString text) of
                  None \<Rightarrow> Inl SyntaxError
                | Some result \<Rightarrow>
                    (case mapResult (Number_toString P) result of
                       Inl e \<Rightarrow> Inl e
                     | Inr r \<Rightarrow> Inr (Some r))))"

definition theRequest :: "jsstring \<Rightarrow> 'r \<Rightarrow> 'm \<Rightarrow> ('r, 'm) request" where
  "theRequest prompt currentRobot motorLibrary =
     \<lparr>model = js ''gemini-2.5-flash'', contents = prompt,
      contextRobot = currentRobot, contextLibrary = motorLibrary\<rparr>"

definition generateRobotFromPrompt ::
  "('r, 'm) platform \<Rightarrow> jsstring \<Rightarrow> 'r \<Rightarrow> 'm \<Rightarrow> AIResponse option \<times> ('r, 'm) request list" where
  "generateRobotFromPrompt P prompt currentRobot motorLibrary =
     (case eggLoop (trim prompt) EGGS of
        Some text \<Rightarrow>
          (Some \<lparr>explanation = JStr text, actionType = JStr (js ''advice''), robotData = None\<rparr>,
           [])
      | None \<Rightarrow>
          if API_KEY P = None \<or> API_KEY P = Some []
          then (Some \<lparr>explanation =
                        JStr (js ''API Key is missing. Please configure the environment.''),
                      actionType = JStr (js ''advice''), robotData = None\<rparr>,
                [])
          else (case tryBlock P (theRequest prompt currentRobot motorLibrary) of
                  Inl e \<Rightarrow> (None, [theRequest prompt currentRobot motorLibrary])
                | Inr r \<Rightarrow> (r, [theRequest prompt currentRobot motorLibrary])))"

section \<open>Definitions used to state the properties\<close>

text \<open>The trigger table with keys and values decoded.\<close>

definition decodedEGGS :: "(jsstring \<times> jsstring) list" where
  "decodedEGGS = map (\<lambda>(key, val). (b64DecodeUnicode key, b64DecodeUnicode val)) EGGS"

text \<open>
  A call reaches the external request when no trigger matches and a non-empty credential
  is configured.
\<close>

definition reachesRequest :: "('r, 'm) platform \<Rightarrow> jsstring \<Rightarrow> bool" where
  "reachesRequest P prompt =
     (eggLoop (trim prompt) EGGS = None \<and> API_KEY P \<noteq> None \<and> API_KEY P \<noteq> Some [])"

text \<open>
  A concrete surrounding for the examples: a credential is configured, the service
  answers every request with \<open>reply\<close>, and \<open>JSON.parse\<close> returns \<open>parsed\<close>.
\<close>

definition examplePlatform ::
  "error + jsstring option \<Rightarrow> jsval option \<Rightarrow> ('r, 'm) platform" where
  "examplePlatform reply parsed =
     \<lparr>API_KEY = Some (js ''key''), generateContent = (\<lambda>req. reply),
      JSON_parse = (\<lambda>s. parsed), Number_toString = (\<lambda>r. js ''0'')\<rparr>"

text \<open>Descriptors for the examples.\<close>

definition zeroLimitJoint :: jsval where
  "zeroLimitJoint =
     JObj [(js ''id'', JStr (js ''j1'')), (js ''lowerLimit'', JNum 0), (js ''upperLimit'', JNull),
           (js ''effortLimit'', JNum 0), (js ''velocityLimit'', JNum 0)]"

definition zeroSizeLink :: jsval where
  "zeroSizeLink =
     JObj [(js ''id'', JStr (js ''l1'')), (js ''dimensions'', JArr [JNum 0, JNum 2, JNum 0]),
           (js ''mass'', JNum 0)]"

definition xAxisJoint :: jsval where
  "xAxisJoint = JObj [(js ''id'', JStr (js ''j1'')), (js ''axis'', JArr [JNum 1, JNum 0, JNum 0])]"

subsection \<open>The extraction step in the words of the specification\<close>

text \<open>
  \<open>splitFence\<close> cuts a text at its first triple-backtick marker. A fenced block is
  present when a marker is followed, after an optional \<open>json\<close> tag, by a second
  marker; its inner content is the text between the tag and the second marker, without
  the whitespace around it. \<open>braceSpan\<close> is the text from the first \<open>{\<close> to the last
  \<open>}\<close> inclusive, empty when there is no such span.
\<close>

definition fence :: jsstring where
  "fence = js ''```''"

fun splitFence :: "jsstring \<Rightarrow> (jsstring \<times> jsstring) option" where
  "splitFence [] = None"
| "splitFence (x # xs) =
     (if prefix fence (x # xs) then Some ([], drop 3 (x # xs))
      else (case splitFence xs of None \<Rightarrow> None | Some (a, b) \<Rightarrow> Some (x # a, b)))"

definition stripJsonTag :: "jsstring \<Rightarrow> jsstring" where
  "stripJsonTag s = (if prefix (js ''json'') s then drop 4 s else s)"

definition fencedBlock :: "jsstring \<Rightarrow> jsstring option" where
  "fencedBlock text =
     (case splitFence text of
        None \<Rightarrow> None
      | Some (before, rest) \<Rightarrow>
          (case splitFence (stripJsonTag rest) of
             None \<Rightarrow> None
           | Some (inner, after) \<Rightarrow> Some (trim inner)))"

definition braceSpan :: "jsstring \<Rightarrow> jsstring" where
  "braceSpan text =
     rev (dropWhile (\<lambda>c. c \<noteq> 0x7D) (rev (dropWhile (\<lambda>c. c \<noteq> 0x7B) text)))"

subsection \<open>Reading the mapped records\<close>

definition entriesOf :: "jsval \<Rightarrow> (jsstring \<times> jsval) list" where
  "entriesOf v = (case v of JObj al \<Rightarrow> al | _ \<Rightarrow> [])"

definition elementsOf :: "jsval \<Rightarrow> jsval list" where
  "elementsOf v = (case v of JArr xs \<Rightarrow> xs | _ \<Rightarrow> [])"

definition nonEmptyString :: "jsval \<Rightarrow> bool" where
  "nonEmptyString v = (case v of JStr s \<Rightarrow> s \<noteq> [] | _ \<Rightarrow> False)"

subsection \<open>Replies for the examples\<close>

definition adviceObject :: jsstring where
  "adviceObject =
     js ''{'' @ [0x22] @ js ''explanation'' @ [0x22] @ js '':'' @ [0x22] @ js ''x'' @ [0x22]
       @ js '','' @ [0x22] @ js ''actionType'' @ [0x22] @ js '':'' @ [0x22] @ js ''advice''
       @ [0x22] @ js ''}''"

definition adviceParsed :: jsval where
  "adviceParsed =
     JObj [(js ''explanation'', JStr (js ''x'')), (js ''actionType'', JStr (js ''advice''))]"

definition fencedReply :: jsstring where
  "fencedReply = js ''Sure! ```json'' @ [0x0A] @ adviceObject @ [0x0A] @ js ''``` {done}''"

definition proseReply :: jsstring where
  "proseReply = js ''Here it is: '' @ adviceObject @ js '' Enjoy.''"

definition noJsonReply :: jsstring where
  "noJsonReply = js ''I cannot help with that.''"

definition emptyFenceReply :: jsstring where
  "emptyFenceReply = js ''```json'' @ [0x0A] @ js ''```'' @ [0x0A] @ adviceObject"

definition nullLinkReply :: jsval where
  "nullLinkReply = JObj [(js ''robotData'', JObj [(js ''links'', JArr [JNull])])]"

definition goodLink :: jsval where
  "goodLink =
     JObj [(js ''id'', JStr (js ''l1'')), (js ''name'', JStr (js ''base'')),
           (js ''visualType'', JStr (js ''box'')),
           (js ''dimensions'', JArr [JNum 1, JNum 2, JNum 3]),
           (js ''color'', JStr (js ''#fff'')), (js ''mass'', JNum 2)]"

definition goodJoint :: jsval where
  "goodJoint =
     JObj [(js ''id'', JStr (js ''j1'')), (js ''name'', JStr (js ''hinge'')),
           (js ''type'', JStr (js ''revolute'')), (js ''parentLinkId'', JStr (js ''l1'')),
           (js ''childLinkId'', JStr (js ''l1''))]"

definition goodData :: jsval where
  "goodData =
     JObj [(js ''name'', JStr (js ''r1'')), (js ''links'', JArr [goodLink]),
           (js ''joints'', JArr [goodJoint]), (js ''rootLinkId'', JStr (js ''l1''))]"

definition goodReply :: "string \<Rightarrow> jsval" where
  "goodReply action =
     JObj [(js ''explanation'', JStr (js ''ok'')), (js ''actionType'', JStr (js action)),
           (js ''robotData'', goodData)]"

definition goodRobot :: jsval where
  "goodRobot =
     JObj [(js ''name'', JStr (js ''r1'')),
           (js ''links'', JObj [(js ''l1'', linkRecord goodLink)]),
           (js ''joints'', JObj [(js ''j1'', jointRecord goodJoint)]),
           (js ''rootLinkId'', JStr (js ''l1''))]"

definition emptyIdLink :: jsval where
  "emptyIdLink = JObj [(js ''id'', JStr []), (js ''name'', JStr (js ''base''))]"

definition noIdJoint :: jsval where
  "noIdJoint = JObj [(js ''name'', JStr (js ''hinge''))]"

definition emptyIdReply :: jsval where
  "emptyIdReply =
     JObj [(js ''explanation'', JStr (js ''ok'')), (js ''actionType'', JStr (js ''generation'')),
           (js ''robotData'',
              JObj [(js ''links'', JArr [emptyIdLink]), (js ''joints'', JArr [noIdJoint])])]"

text \<open>A reply with a well-formed link next to a joint that has no id.\<close>

definition mixedReply :: jsval where
  "mixedReply =
     JObj [(js ''explanation'', JStr (js ''ok'')), (js ''actionType'', JStr (js ''generation'')),
           (js ''robotData'',
              JObj [(js ''links'', JArr [goodLink]), (js ''joints'', JArr [noIdJoint])])]"

definition mixedRobot :: jsval where
  "mixedRobot =
     JObj [(js ''name'', JStr (js ''modified_robot'')),
           (js ''links'', JObj [(js ''l1'', linkRecord goodLink)]),
           (js ''joints'', JObj [(js ''undefined'', jointRecord noIdJoint)]),
           (js ''rootLinkId'', JUndefined)]"

section \<open>The trigger matcher\<close>

lemmas decode_defs =
  b64DecodeUnicode_def atob_def js_def stripPadding_def isAsciiWhitespace_def
  base64Index_def textDecode_def utf8_init_def stripBOM_def utf16_def

lemma decodedEGGS_eq:
  "decodedEGGS =
     [([0x8FBE, 0x5999, 0x79D1, 0x6280], [0x53D1, 0x6765, 0x8D3A, 0x7535]),
      ([0x7075, 0x8DB3, 0x65F6, 0x4EE3], [0x795D, 0x4F60, 0x6210, 0x529F]),
      ([0x56E0, 0x514B, 0x65AF, 0x667A, 0x80FD], [0x795D, 0x8001, 0x677F, 0x597D, 0x5E05, 0xFF01]),
      ([0x9AD8, 0x64CE, 0x673A, 0x7535], [0x6211, 0x7231, 0x5C0F, 0x6D3E, 0xFF01]),
      ([0x5730, 0x74DC, 0x673A, 0x4E59, 0x4EBA], [0x53D1, 0x6765, 0x70E8, 0x5730, 0x74DC])]"
  by (simp add: decodedEGGS_def EGGS_def decode_defs)

lemma eggLoop_map_of: "eggLoop t es =
    map_of (map (\<lambda>(key, val). (b64DecodeUnicode key, b64DecodeUnicode val)) es) t"
  by (induction es) auto

lemma eggLoop_decoded: "eggLoop t EGGS = map_of decodedEGGS t"
  by (simp add: eggLoop_map_of decodedEGGS_def)

lemma distinct_decoded_keys: "distinct (map fst decodedEGGS)"
  by (simp add: decodedEGGS_eq)

lemma eggLoop_hit:
  assumes "(key, val) \<in> set EGGS"
  shows "eggLoop (b64DecodeUnicode key) EGGS = Some (b64DecodeUnicode val)"
proof -
  have "(b64DecodeUnicode key, b64DecodeUnicode val) \<in> set decodedEGGS"
    using assms unfolding decodedEGGS_def by force
  with distinct_decoded_keys
  have "map_of decodedEGGS (b64DecodeUnicode key) = Some (b64DecodeUnicode val)"
    by (rule map_of_is_SomeI)
  then show ?thesis
    by (simp add: eggLoop_decoded)
qed

text \<open>
  C1. For every entry of the trigger table, a prompt that trims to the decoded key is
  answered with \<open>actionType\<close> "advice" and the decoded value as \<open>explanation\<close>, without
  robot data, and no request is sent to the service, whatever the environment, the
  service and the other arguments are.
\<close>

theorem trigger_match_returns_advice:
  assumes "(key, val) \<in> set EGGS" and "trim prompt = b64DecodeUnicode key"
  shows "generateRobotFromPrompt P prompt currentRobot motorLibrary =
           (Some \<lparr>explanation = JStr (b64DecodeUnicode val), actionType = JStr (js ''advice''),
                  robotData = None\<rparr>, [])"
  using eggLoop_hit [OF assms(1)] assms(2) by (simp add: generateRobotFromPrompt_def)

theorem trigger_match_returns_advice_witness:
  "(js ''6auY5pOO5py655S1'', js ''5oiR54ix5bCP5rS+77yB'') \<in> set EGGS
   \<and> trim [0x20, 0x9AD8, 0x64CE, 0x673A, 0x7535, 0x0A, 0x3000]
       = b64DecodeUnicode (js ''6auY5pOO5py655S1'')
   \<and> generateRobotFromPrompt (examplePlatform (Inl ServiceError) None)
        [0x20, 0x9AD8, 0x64CE, 0x673A, 0x7535, 0x0A, 0x3000] () ()
       = (Some \<lparr>explanation = JStr [0x6211, 0x7231, 0x5C0F, 0x6D3E, 0xFF01],
                actionType = JStr (js ''advice''), robotData = None\<rparr>, [])"
proof -
  have m: "(js ''6auY5pOO5py655S1'', js ''5oiR54ix5bCP5rS+77yB'') \<in> set EGGS"
    by (simp add: EGGS_def)
  have t: "trim [0x20, 0x9AD8, 0x64CE, 0x673A, 0x7535, 0x0A, 0x3000]
             = b64DecodeUnicode (js ''6auY5pOO5py655S1'')"
    by (simp add: trim_def trimEnd_def isWhiteSpace_def decode_defs)
  have v: "b64DecodeUnicode (js ''5oiR54ix5bCP5rS+77yB'') = [0x6211, 0x7231, 0x5C0F, 0x6D3E, 0xFF01]"
    by (simp add: decode_defs)
  show ?thesis
    using m t trigger_match_returns_advice [OF m t, of "examplePlatform (Inl ServiceError) None" "()" "()"]
    unfolding v by simp
qed

section \<open>The request dispatcher\<close>

lemma eggLoop_None_iff: "eggLoop t es = None \<longleftrightarrow> t \<notin> b64DecodeUnicode ` fst ` set es"
  by (induction es) (auto split: if_splits)

lemma decoded_keys: "b64DecodeUnicode ` fst ` set EGGS = fst ` set decodedEGGS"
  by (force simp: decodedEGGS_def)

lemma hello_no_trigger: "trim (js ''  hello '') \<notin> b64DecodeUnicode ` fst ` set EGGS"
  by (simp add: decoded_keys decodedEGGS_eq trim_def trimEnd_def isWhiteSpace_def js_def)

lemma reaches_hello: "reachesRequest (examplePlatform reply parsed) (js ''  hello '')"
  using hello_no_trigger
  by (simp add: reachesRequest_def eggLoop_None_iff examplePlatform_def js_def)

lemma generate_reaches:
  assumes "reachesRequest P prompt"
  shows "generateRobotFromPrompt P prompt currentRobot motorLibrary =
           ((case tryBlock P (theRequest prompt currentRobot motorLibrary) of
               Inl e \<Rightarrow> None | Inr r \<Rightarrow> r),
            [theRequest prompt currentRobot motorLibrary])"
  using assms by (auto simp: generateRobotFromPrompt_def reachesRequest_def split: sum.splits)

text \<open>
  C2. When the trimmed prompt equals no decoded trigger key and the environment holds no
  credential, the adapter answers with \<open>actionType\<close> "advice" and the fixed explanation,
  without robot data, and sends no request.
\<close>

theorem missing_credential_returns_advice:
  assumes "trim prompt \<notin> b64DecodeUnicode ` fst ` set EGGS" and "API_KEY P = None"
  shows "generateRobotFromPrompt P prompt currentRobot motorLibrary =
           (Some \<lparr>explanation = JStr (js ''API Key is missing. Please configure the environment.''),
                  actionType = JStr (js ''advice''), robotData = None\<rparr>, [])"
  using assms by (simp add: generateRobotFromPrompt_def eggLoop_None_iff [symmetric])

theorem missing_credential_returns_advice_witness:
  "trim (js ''  hello '') \<notin> b64DecodeUnicode ` fst ` set EGGS
   \<and> API_KEY ((examplePlatform (Inl ServiceError) None)\<lparr>API_KEY := None\<rparr>) = None
   \<and> generateRobotFromPrompt ((examplePlatform (Inl ServiceError) None)\<lparr>API_KEY := None\<rparr>)
        (js ''  hello '') () ()
       = (Some \<lparr>explanation = JStr (js ''API Key is missing. Please configure the environment.''),
                actionType = JStr (js ''advice''), robotData = None\<rparr>, [])"
  using hello_no_trigger
    missing_credential_returns_advice [OF hello_no_trigger,
      of "(examplePlatform (Inl ServiceError) None)\<lparr>API_KEY := None\<rparr>" "()" "()"]
  by simp

text \<open>
  C7. In a call that reaches the external request, an error thrown by the service, a
  response without text or with empty text, a \<open>SyntaxError\<close> of \<open>JSON.parse\<close> and an
  error thrown while the parsed value is mapped (in short, any error of the \<open>try\<close> block)
  all end in the result \<open>null\<close>, after the one request: the adapter returns, and returns
  nothing partial.
\<close>

theorem failures_become_null:
  assumes "reachesRequest P prompt"
  shows "(generateContent P (theRequest prompt currentRobot motorLibrary) = Inl e \<longrightarrow>
            generateRobotFromPrompt P prompt currentRobot motorLibrary
              = (None, [theRequest prompt currentRobot motorLibrary]))
       \<and> (generateContent P (theRequest prompt currentRobot motorLibrary) = Inr None \<longrightarrow>
            generateRobotFromPrompt P prompt currentRobot motorLibrary
              = (None, [theRequest prompt currentRobot motorLibrary]))
       \<and> (generateContent P (theRequest prompt currentRobot motorLibrary) = Inr (Some []) \<longrightarrow>
            generateRobotFromPrompt P prompt currentRobot motorLibrary
              = (None, [theRequest prompt currentRobot motorLibrary]))
       \<and> (generateContent P (theRequest prompt currentRobot motorLibrary) = Inr (Some text)
            \<and> JSON_parse P (jsonString text) = None \<longrightarrow>
            generateRobotFromPrompt P prompt currentRobot motorLibrary
              = (None, [theRequest prompt currentRobot motorLibrary]))
       \<and> (generateContent P (theRequest prompt currentRobot motorLibrary) = Inr (Some text)
            \<and> JSON_parse P (jsonString text) = Some result
            \<and> mapResult (Number_toString P) result = Inl e' \<longrightarrow>
            generateRobotFromPrompt P prompt currentRobot motorLibrary
              = (None, [theRequest prompt currentRobot motorLibrary]))
       \<and> (tryBlock P (theRequest prompt currentRobot motorLibrary) = Inl e'' \<longrightarrow>
            generateRobotFromPrompt P prompt currentRobot motorLibrary
              = (None, [theRequest prompt currentRobot motorLibrary]))"
  by (simp add: generate_reaches [OF assms] tryBlock_def)

section \<open>The robot data mapper\<close>

lemma field_JObj:
  "field (JObj al) name = (case map_of al (js name) of None \<Rightarrow> JUndefined | Some w \<Rightarrow> w)"
  by (simp add: field_def)

lemma jointRecord_limit:
  "field (jointRecord j) ''limit'' =
     JObj [(js ''lower'', nullish (field j ''lowerLimit'') (JNum (- 1.57))),
           (js ''upper'', nullish (field j ''upperLimit'') (JNum 1.57)),
           (js ''effort'', nullish (field j ''effortLimit'') (JNum 100)),
           (js ''velocity'', nullish (field j ''velocityLimit'') (JNum 10))]"
  by (simp add: jointRecord_def field_def js_def)

text \<open>
  C4. In the record mapped from a joint descriptor, each of the four limits is the
  descriptor's field unless that field is \<open>null\<close> or absent, and only then the default
  -1.57, 1.57, 100 or 10; in particular a limit given as the number 0 stays 0.
\<close>

theorem joint_limit_defaults:
  "field (field (jointRecord j) ''limit'') ''lower''
     = (if field j ''lowerLimit'' = JNull \<or> field j ''lowerLimit'' = JUndefined
        then JNum (- 1.57) else field j ''lowerLimit'')
   \<and> field (field (jointRecord j) ''limit'') ''upper''
     = (if field j ''upperLimit'' = JNull \<or> field j ''upperLimit'' = JUndefined
        then JNum 1.57 else field j ''upperLimit'')
   \<and> field (field (jointRecord j) ''limit'') ''effort''
     = (if field j ''effortLimit'' = JNull \<or> field j ''effortLimit'' = JUndefined
        then JNum 100 else field j ''effortLimit'')
   \<and> field (field (jointRecord j) ''limit'') ''velocity''
     = (if field j ''velocityLimit'' = JNull \<or> field j ''velocityLimit'' = JUndefined
        then JNum 10 else field j ''velocityLimit'')
   \<and> (field j ''lowerLimit'' = JNum 0 \<longrightarrow>
        field (field (jointRecord j) ''limit'') ''lower'' = JNum 0)
   \<and> (field j ''upperLimit'' = JNum 0 \<longrightarrow>
        field (field (jointRecord j) ''limit'') ''upper'' = JNum 0)
   \<and> (field j ''effortLimit'' = JNum 0 \<longrightarrow>
        field (field (jointRecord j) ''limit'') ''effort'' = JNum 0)
   \<and> (field j ''velocityLimit'' = JNum 0 \<longrightarrow>
        field (field (jointRecord j) ''limit'') ''velocity'' = JNum 0)"
  by (auto simp add: jointRecord_limit field_JObj js_def nullish_def isNullish_def)

theorem joint_limit_defaults_witness:
  "field zeroLimitJoint ''lowerLimit'' = JNum 0
   \<and> field (field (jointRecord zeroLimitJoint) ''limit'') ''lower'' = JNum 0
   \<and> field (field (jointRecord zeroLimitJoint) ''limit'') ''upper'' = JNum 1.57
   \<and> field (field (jointRecord zeroLimitJoint) ''limit'') ''effort'' = JNum 0
   \<and> field (field (jointRecord zeroLimitJoint) ''limit'') ''velocity'' = JNum 0"
proof -
  have f: "field zeroLimitJoint ''lowerLimit'' = JNum 0"
          "field zeroLimitJoint ''upperLimit'' = JNull"
          "field zeroLimitJoint ''effortLimit'' = JNum 0"
          "field zeroLimitJoint ''velocityLimit'' = JNum 0"
    by (simp_all add: zeroLimitJoint_def field_def js_def)
  show ?thesis
    using joint_limit_defaults [of zeroLimitJoint] by (simp add: f)
qed

text \<open>
  C5, on the code. A link descriptor with dimensions \<open>[0, 2, 0]\<close> and mass \<open>0\<close> is
  mapped to dimensions 0.1, 2, 0.1 and mass 1: the numbers 0 that the descriptor gives are
  replaced by the defaults.
\<close>

theorem link_zero_dimension_and_mass_replaced:
  "field (field (field (linkRecord zeroSizeLink) ''visual'') ''dimensions'') ''x'' = JNum 0.1
   \<and> field (field (field (linkRecord zeroSizeLink) ''visual'') ''dimensions'') ''y'' = JNum 2
   \<and> field (field (field (linkRecord zeroSizeLink) ''visual'') ''dimensions'') ''z'' = JNum 0.1
   \<and> field (field (linkRecord zeroSizeLink) ''inertial'') ''mass'' = JNum 1"
  by (simp add: linkRecord_def zeroSizeLink_def field_def js_def optIndex_def orElse_def Let_def)

text \<open>
  C6, on the code. A joint descriptor with axis \<open>[1, 0, 0]\<close> is mapped to the axis
  1, 0, 1: the \<open>z\<close> component 0 that the descriptor gives is replaced by the default 1
  (\<open>x\<close> and \<open>y\<close> keep a given 0 only because their default is 0 as well).
\<close>

theorem joint_axis_zero_z_replaced:
  "field (field (jointRecord xAxisJoint) ''axis'') ''x'' = JNum 1
   \<and> field (field (jointRecord xAxisJoint) ''axis'') ''y'' = JNum 0
   \<and> field (field (jointRecord xAxisJoint) ''axis'') ''z'' = JNum 1"
  by (simp add: jointRecord_def xAxisJoint_def field_def js_def optIndex_def orElse_def)

section \<open>The JSON extractor\<close>

text \<open>
  The regular expression is characterised step by step, from its end: each suffix of the
  expression is a function of the first marker found in the input.
\<close>

lemma fence_eq: "fence = [0x60, 0x60, 0x60]"
  by (simp add: fence_def js_def)

lemma json_eq: "js ''json'' = [0x6A, 0x73, 0x6F, 0x6E]"
  by (simp add: js_def)

lemma ws_not_fence: "isWhiteSpace x \<Longrightarrow> \<not> prefix fence (x # xs)"
  by (auto simp: fence_eq isWhiteSpace_def)

lemma prefix_fence_dropWhile:
  "prefix fence xs \<Longrightarrow> dropWhile isWhiteSpace xs = xs"
  by (cases xs) (auto simp: fence_eq isWhiteSpace_def)

lemma splitFence_append:
  "splitFence xs = Some (a, b) \<Longrightarrow> xs = a @ fence @ b"
proof (induction xs arbitrary: a b)
  case Nil
  then show ?case by simp
next
  case (Cons x xs)
  show ?case
  proof (cases "prefix fence (x # xs)")
    case True
    with Cons.prems have "a = []" "b = drop 3 (x # xs)" by auto
    moreover from True have "x # xs = fence @ drop 3 (x # xs)"
      by (auto simp: prefix_def fence_eq)
    ultimately show ?thesis by simp
  next
    case False
    with Cons.prems obtain a' where "splitFence xs = Some (a', b)" "a = x # a'"
      by (auto split: option.splits)
    with Cons.IH show ?thesis by auto
  qed
qed

lemma splitFence_Cons_ws:
  "isWhiteSpace x \<Longrightarrow>
     splitFence (x # xs) = (case splitFence xs of None \<Rightarrow> None | Some (a, b) \<Rightarrow> Some (x # a, b))"
  using ws_not_fence [of x xs] by simp

lemma splitFence_prefix_extend:
  "splitFence ys \<noteq> None \<Longrightarrow> splitFence (zs @ ys) \<noteq> None"
  by (induction zs) (auto split: option.splits)

lemma splitFence_dropWhile_None:
  "splitFence (dropWhile isWhiteSpace ys) = None \<longleftrightarrow> splitFence ys = None"
  by (induction ys) (auto simp: splitFence_Cons_ws simp del: splitFence.simps split: option.splits)

lemma splitFence_dropWhile_Some:
  "splitFence ys = Some (a, b) \<Longrightarrow>
     splitFence (dropWhile isWhiteSpace ys) = Some (dropWhile isWhiteSpace a, b)"
proof (induction ys arbitrary: a b)
  case Nil
  then show ?case by simp
next
  case (Cons y ys)
  show ?case
  proof (cases "isWhiteSpace y")
    case True
    with Cons.prems obtain a' where "splitFence ys = Some (a', b)" "a = y # a'"
      by (auto simp: splitFence_Cons_ws simp del: splitFence.simps split: option.splits)
    with Cons.IH True show ?thesis by simp
  next
    case False
    with Cons.prems show ?thesis
      by (auto split: if_splits option.splits)
  qed
qed

lemma splitFence_json:
  "prefix (js ''json'') xs \<Longrightarrow> splitFence xs = None \<longleftrightarrow> splitFence (drop 4 xs) = None"
  by (auto simp: prefix_def json_eq fence_eq split: option.splits)

lemma splitFence_stripJsonTag:
  "splitFence (stripJsonTag xs) = None \<longleftrightarrow> splitFence xs = None"
  by (simp add: stripJsonTag_def splitFence_json)

lemma trimEnd_all: "\<forall>c \<in> set s. isWhiteSpace c \<Longrightarrow> trimEnd s = []"
  by (simp add: trimEnd_def)

lemma trimEnd_Cons:
  "trimEnd (x # s) = (if \<forall>c \<in> set (x # s). isWhiteSpace c then [] else x # trimEnd s)"
  by (auto simp: trimEnd_def dropWhile_append)

lemma splitFence_at_ws_run:
  "prefix fence (dropWhile isWhiteSpace ys) \<Longrightarrow>
     splitFence ys = Some (takeWhile isWhiteSpace ys, drop 3 (dropWhile isWhiteSpace ys))"
proof (induction ys)
  case Nil
  then show ?case by (simp add: fence_eq)
next
  case (Cons y ys)
  show ?case
  proof (cases "isWhiteSpace y")
    case True
    with Cons show ?thesis by (simp del: splitFence.simps add: splitFence_Cons_ws)
  next
    case False
    with Cons.prems show ?thesis by simp
  qed
qed

lemma exec_CaptureLazy_Nil:
  "exec (CaptureLazy p # r) [] cap = exec r [] cap"
  by (simp split: option.splits)

lemma exec_CaptureLazy_Cons:
  "exec (CaptureLazy p # r) (x # xs) cap =
     (case exec r (x # xs) cap of
        Some c \<Rightarrow> Some c
      | None \<Rightarrow> if p x then exec (CaptureLazy p # r) xs (cap @ [x]) else None)"
  by (simp split: option.splits)

lemma length_fence [simp]: "length fence = 3"
  by (simp add: fence_def js_def)

lemma fence_not_Nil [simp]: "fence \<noteq> []"
  by (simp add: fence_eq)

lemma length_json [simp]: "length (js ''json'') = 4"
  by (simp add: js_def)

lemma exec_close:
  "exec [StarGreedy isWhiteSpace, Lit fence] xs cap =
     (if prefix fence (dropWhile isWhiteSpace xs) then Some cap else None)"
proof (induction xs)
  case Nil
  then show ?case by simp
next
  case (Cons x xs)
  then show ?case using ws_not_fence [of x xs] by (auto simp: fence_eq)
qed

lemma exec_capture:
  "exec [CaptureLazy (\<lambda>c. True), StarGreedy isWhiteSpace, Lit fence] xs cap =
     (case splitFence xs of None \<Rightarrow> None | Some (inner, rest) \<Rightarrow> Some (cap @ trimEnd inner))"
proof (induction xs arbitrary: cap)
  case Nil
  show ?case by (simp del: exec.simps add: exec_CaptureLazy_Nil exec_close)
next
  case (Cons x xs)
  show ?case
  proof (cases "prefix fence (dropWhile isWhiteSpace (x # xs))")
    case True
    have "trimEnd (takeWhile isWhiteSpace (x # xs)) = []"
      by (rule trimEnd_all) (auto dest: set_takeWhileD)
    with True show ?thesis
      by (simp del: exec.simps splitFence.simps dropWhile.simps takeWhile.simps add: exec_CaptureLazy_Cons exec_close splitFence_at_ws_run)
  next
    case False
    then have nf: "\<not> prefix fence (x # xs)"
      using prefix_fence_dropWhile [of "x # xs"] by auto
    have e: "exec [CaptureLazy (\<lambda>c. True), StarGreedy isWhiteSpace, Lit fence] (x # xs) cap
             = exec [CaptureLazy (\<lambda>c. True), StarGreedy isWhiteSpace, Lit fence] xs (cap @ [x])"
      using False by (simp del: exec.simps dropWhile.simps add: exec_CaptureLazy_Cons exec_close)
    show ?thesis
    proof (cases "splitFence xs")
      case None
      with nf show ?thesis by (simp del: exec.simps add: e Cons.IH)
    next
      case (Some ab)
      obtain a b where ab: "ab = (a, b)" by (cases ab)
      from Some ab have xs: "xs = a @ fence @ b" by (simp add: splitFence_append)
      have "\<not> (\<forall>c \<in> set (x # a). isWhiteSpace c)"
      proof
        assume all: "\<forall>c \<in> set (x # a). isWhiteSpace c"
        then have "dropWhile isWhiteSpace (x # xs) = dropWhile isWhiteSpace (fence @ b)"
          unfolding xs by (simp add: dropWhile_append)
        also have "\<dots> = fence @ b"
          by (rule prefix_fence_dropWhile) simp
        finally show False using False by simp
      qed
      then have "trimEnd (x # a) = x # trimEnd a"
        by (simp only: trimEnd_Cons if_False)
      with nf Some ab show ?thesis by (simp del: exec.simps add: e Cons.IH)
    qed
  qed
qed

lemma exec_body:
  "exec [StarGreedy isWhiteSpace, CaptureLazy (\<lambda>c. True), StarGreedy isWhiteSpace, Lit fence] xs cap =
     exec [CaptureLazy (\<lambda>c. True), StarGreedy isWhiteSpace, Lit fence] (dropWhile isWhiteSpace xs) cap"
proof (induction xs)
  case Nil
  show ?case by (simp del: exec.simps add: exec.simps(4))
next
  case (Cons x xs)
  show ?case
  proof (cases "isWhiteSpace x")
    case True
    show ?thesis
    proof (cases "splitFence xs")
      case None
      then have "splitFence (dropWhile isWhiteSpace xs) = None" "splitFence (x # xs) = None"
        using True by (simp_all add: splitFence_dropWhile_None splitFence_Cons_ws del: splitFence.simps)
      then show ?thesis using True
        by (simp del: exec.simps splitFence.simps add: exec.simps(5) Cons.IH exec_capture)
    next
      case (Some ab)
      obtain a b where ab: "ab = (a, b)" by (cases ab)
      from Some ab have "splitFence (dropWhile isWhiteSpace xs) = Some (dropWhile isWhiteSpace a, b)"
        by (simp add: splitFence_dropWhile_Some)
      then show ?thesis using True
        by (simp del: exec.simps splitFence.simps add: exec.simps(5) Cons.IH exec_capture)
    qed
  next
    case False
    then show ?thesis by (simp del: exec.simps add: exec.simps(5))
  qed
qed

lemma exec_body_eq:
  "exec [StarGreedy isWhiteSpace, CaptureLazy (\<lambda>c. True), StarGreedy isWhiteSpace, Lit fence] xs [] =
     (case splitFence xs of None \<Rightarrow> None | Some (inner, rest) \<Rightarrow> Some (trim inner))"
proof (cases "splitFence xs")
  case None
  then have "splitFence (dropWhile isWhiteSpace xs) = None"
    by (simp add: splitFence_dropWhile_None)
  with None show ?thesis by (simp del: exec.simps add: exec_body exec_capture)
next
  case (Some ab)
  obtain a b where ab: "ab = (a, b)" by (cases ab)
  from Some ab have "splitFence (dropWhile isWhiteSpace xs) = Some (dropWhile isWhiteSpace a, b)"
    by (simp add: splitFence_dropWhile_Some)
  with Some ab show ?thesis by (simp del: exec.simps add: exec_body exec_capture trim_def)
qed

lemma exec_tagged:
  "exec [OptGreedy (js ''json''), StarGreedy isWhiteSpace, CaptureLazy (\<lambda>c. True),
         StarGreedy isWhiteSpace, Lit fence] xs [] =
     (case splitFence (stripJsonTag xs) of None \<Rightarrow> None | Some (inner, rest) \<Rightarrow> Some (trim inner))"
proof (cases "prefix (js ''json'') xs")
  case True
  show ?thesis
  proof (cases "splitFence (drop 4 xs)")
    case None
    with True have "splitFence xs = None" by (simp add: splitFence_json)
    with None True show ?thesis
      by (simp del: exec.simps add: exec.simps(3) exec_body_eq stripJsonTag_def)
  next
    case (Some ab)
    obtain a b where ab: "ab = (a, b)" by (cases ab)
    with Some True show ?thesis
      by (simp del: exec.simps add: exec.simps(3) exec_body_eq stripJsonTag_def)
  qed
next
  case False
  then show ?thesis
    by (simp del: exec.simps add: exec.simps(3) exec_body_eq stripJsonTag_def)
qed

lemma fenceRegex_eq:
  "fenceRegex = [Lit fence, OptGreedy (js ''json''), StarGreedy isWhiteSpace,
                 CaptureLazy (\<lambda>c. True), StarGreedy isWhiteSpace, Lit fence]"
  by (simp add: fenceRegex_def fence_def)

lemma exec_fenceRegex:
  "exec fenceRegex xs [] =
     (if prefix fence xs
      then (case splitFence (stripJsonTag (drop 3 xs)) of
              None \<Rightarrow> None | Some (inner, rest) \<Rightarrow> Some (trim inner))
      else None)"
  unfolding fenceRegex_eq
  by (simp del: exec.simps add: exec.simps(2) exec_tagged)

lemma fencedBlock_Nil: "fencedBlock [] = None"
  by (simp add: fencedBlock_def)

lemma fencedBlock_Cons:
  "fencedBlock (x # xs) =
     (if prefix fence (x # xs)
      then (case splitFence (stripJsonTag (drop 3 (x # xs))) of
              None \<Rightarrow> None | Some (inner, rest) \<Rightarrow> Some (trim inner))
      else fencedBlock xs)"
  by (auto simp: fencedBlock_def split: option.splits)

lemma fencedBlock_needs_close:
  assumes "prefix fence (x # xs)" and "splitFence (stripJsonTag (drop 3 (x # xs))) = None"
  shows "fencedBlock xs = None"
proof (rule ccontr)
  assume "fencedBlock xs \<noteq> None"
  then obtain b rest where s: "splitFence xs = Some (b, rest)"
    and c: "splitFence (stripJsonTag rest) \<noteq> None"
    by (auto simp: fencedBlock_def split: option.splits)
  from c have r: "splitFence rest \<noteq> None"
    by (simp add: splitFence_stripJsonTag)
  from s have xs: "xs = b @ fence @ rest"
    by (rule splitFence_append)
  have "drop 3 (x # xs) = drop 2 (b @ fence) @ rest"
    unfolding xs by simp
  with splitFence_prefix_extend [OF r, of "drop 2 (b @ fence)"]
  have "splitFence (drop 3 (x # xs)) \<noteq> None"
    by simp
  with assms(2) show False
    by (simp add: splitFence_stripJsonTag)
qed

lemma matchFirst_fenceRegex: "matchFirst fenceRegex t = fencedBlock t"
proof (induction t)
  case Nil
  show ?case by (simp add: exec_fenceRegex fencedBlock_Nil)
next
  case (Cons x xs)
  show ?case
  proof (cases "exec fenceRegex (x # xs) []")
    case None
    show ?thesis
    proof (cases "prefix fence (x # xs)")
      case True
      with None have "splitFence (stripJsonTag (drop 3 (x # xs))) = None"
        by (auto simp: exec_fenceRegex split: option.splits)
      with True have "fencedBlock xs = None" "fencedBlock (x # xs) = None"
        by (simp_all add: fencedBlock_needs_close fencedBlock_Cons)
      with None Cons.IH show ?thesis by simp
    next
      case False
      with None Cons.IH show ?thesis by (simp add: fencedBlock_Cons)
    qed
  next
    case (Some c)
    then show ?thesis
      by (auto simp: exec_fenceRegex fencedBlock_Cons split: if_splits)
  qed
qed

lemma jsonBlockMatch_fencedBlock: "jsonBlockMatch t = fencedBlock t"
  by (simp add: jsonBlockMatch_def matchFirst_fenceRegex)

lemma indexOf_eq:
  "indexOf c xs = (if c \<in> set xs then int (length (takeWhile (\<lambda>x. x \<noteq> c) xs)) else - 1)"
  by (induction xs) (auto simp: Let_def)

lemma lastIndexOf_eq:
  "lastIndexOf c xs =
     (if c \<in> set xs then int (length xs) - 1 - int (length (takeWhile (\<lambda>x. x \<noteq> c) (rev xs)))
      else - 1)"
  by (simp add: lastIndexOf_def indexOf_eq Let_def)

lemma substring_nat:
  "f \<le> e \<Longrightarrow> e \<le> length s \<Longrightarrow> substring s (int f) (int e) = take (e - f) (drop f s)"
  by (simp add: substring_def Let_def min_def max_def nat_diff_distrib')

lemma takeWhile_stops_before:
  assumes "x \<in> set xs" and "\<not> P x"
  shows "length (takeWhile P xs) < length xs"
  using assms by (induction xs) auto

lemma rev_dropWhile_rev:
  "rev (dropWhile P (rev s)) = take (length s - length (takeWhile P (rev s))) s"
proof -
  have "rev (dropWhile P (rev s)) = rev (drop (length (takeWhile P (rev s))) (rev s))"
    by (simp add: dropWhile_eq_drop)
  also have "\<dots> = take (length s - length (takeWhile P (rev s))) s"
    by (simp add: rev_drop)
  finally show ?thesis .
qed

lemma brace_branch_eq:
  "(let firstOpen = indexOf 0x7B t;
        lastClose = lastIndexOf 0x7D t
    in if firstOpen \<noteq> - 1 \<and> lastClose \<noteq> - 1 \<and> lastClose > firstOpen
       then substring t firstOpen (lastClose + 1)
       else []) = braceSpan t"
  (is "?code = _")
proof (cases "0x7B \<in> set t")
  case False
  then have d: "dropWhile (\<lambda>c. c \<noteq> 0x7B) t = []" by auto
  show ?thesis
    by (simp add: braceSpan_def indexOf_eq False d)
next
  case True
  define p where "p = takeWhile (\<lambda>c. c \<noteq> 0x7B) t"
  define s where "s = dropWhile (\<lambda>c. c \<noteq> 0x7B) t"
  have t: "t = p @ s" by (simp add: p_def s_def)
  have f: "indexOf 0x7B t = int (length p)"
    using True by (simp add: indexOf_eq p_def)
  from True have "s \<noteq> []" by (simp add: s_def)
  then obtain s' where s': "s = 0x7B # s'"
    using hd_dropWhile [of "\<lambda>c. c \<noteq> 0x7B" t] by (cases s) (auto simp: s_def)
  have np: "\<forall>c \<in> set p. c \<noteq> 0x7B"
    by (auto simp: p_def dest: set_takeWhileD)
  have ds: "drop (length p) t = s" by (simp add: t)
  show ?thesis
  proof (cases "0x7D \<in> set s")
    case True
    then have in_s': "(0x7D :: cu) \<in> set s'" by (simp add: s')
    have k: "takeWhile (\<lambda>c. c \<noteq> 0x7D) (rev t) = takeWhile (\<lambda>c. c \<noteq> 0x7D) (rev s')"
      using in_s' by (simp add: t s' takeWhile_append1 [where x = "0x7D"])
    have ks: "takeWhile (\<lambda>c. c \<noteq> 0x7D) (rev s) = takeWhile (\<lambda>c. c \<noteq> 0x7D) (rev s')"
      using in_s' by (simp add: s' takeWhile_append1 [where x = "0x7D"])
    define k where "k = length (takeWhile (\<lambda>c. c \<noteq> 0x7D) (rev s'))"
    have klt: "k < length s'"
      unfolding k_def using in_s' takeWhile_stops_before [of "0x7D" "rev s'" "\<lambda>c. c \<noteq> 0x7D"]
      by simp
    have int_t: "(0x7D :: cu) \<in> set t" using True by (simp add: t)
    have l0: "lastIndexOf 0x7D t = int (length t) - 1 - int k"
      using int_t by (simp only: lastIndexOf_eq if_True k k_def)
    have lt: "length t = length p + Suc (length s')"
      by (simp add: t s')
    have l: "lastIndexOf 0x7D t = int (length p + length s' - k)"
      using klt by (simp add: l0 lt)
    have l1: "lastIndexOf 0x7D t + 1 = int (length p + length s - k)"
      using klt by (simp add: l s')
    have gt: "lastIndexOf 0x7D t > indexOf 0x7B t"
      using klt by (simp add: l f)
    have "?code = substring t (int (length p)) (int (length p + length s - k))"
      using gt by (simp add: Let_def f l1 del: of_nat_add of_nat_diff)
    also have "\<dots> = take (length p + length s - k - length p) (drop (length p) t)"
      using klt by (intro substring_nat) (simp_all add: lt s')
    also have "\<dots> = take (length s - k) s"
      using klt by (simp add: ds s')
    also have "\<dots> = braceSpan t"
      by (simp add: braceSpan_def s_def [symmetric] rev_dropWhile_rev ks k_def)
    finally show ?thesis .
  next
    case False
    then have all: "\<forall>c \<in> set s. c \<noteq> 0x7D" by auto
    then have b: "braceSpan t = []"
      by (simp add: braceSpan_def s_def [symmetric])
    show ?thesis
    proof (cases "0x7D \<in> set t")
      case nin: False
      then show ?thesis by (simp add: Let_def lastIndexOf_eq b)
    next
      case in_t: True
      have "takeWhile (\<lambda>c. c \<noteq> 0x7D) (rev t) = rev s @ takeWhile (\<lambda>c. c \<noteq> 0x7D) (rev p)"
        unfolding t rev_append by (rule takeWhile_append2) (use all in auto)
      then have "lastIndexOf 0x7D t < int (length p)"
        using in_t by (simp add: lastIndexOf_eq) (simp add: t)
      then show ?thesis by (simp add: Let_def f b)
    qed
  qed
qed

lemma jsonString_eq:
  "jsonString t = (case fencedBlock t of Some inner \<Rightarrow> inner | None \<Rightarrow> braceSpan t)"
  unfolding jsonString_def jsonBlockMatch_fencedBlock brace_branch_eq ..

lemmas extract_eval = fencedBlock_def stripJsonTag_def trim_def trimEnd_def isWhiteSpace_def
  fence_eq js_def braceSpan_def

text \<open>
  C3. For every reply text: the regular expression of the source finds exactly the
  fenced block; when a fenced block is present, the extracted string is its inner content
  (after an optional \<open>json\<close> tag, without surrounding whitespace); when none is
  present, it is the text from the first \<open>{\<close> to the last \<open>}\<close> inclusive; and when
  neither gives a non-empty string, a call that got this reply returns \<open>null\<close>.
\<close>

theorem json_extraction_preference:
  "jsonBlockMatch t = fencedBlock t
   \<and> (fencedBlock t = Some inner \<longrightarrow> jsonString t = inner)
   \<and> (fencedBlock t = None \<longrightarrow> jsonString t = braceSpan t)
   \<and> (reachesRequest P prompt
        \<and> generateContent P (theRequest prompt currentRobot motorLibrary) = Inr (Some t)
        \<and> (fencedBlock t = None \<or> fencedBlock t = Some [])
        \<and> braceSpan t = []
       \<longrightarrow> generateRobotFromPrompt P prompt currentRobot motorLibrary
             = (None, [theRequest prompt currentRobot motorLibrary]))"
  by (auto simp: jsonBlockMatch_fencedBlock jsonString_eq generate_reaches tryBlock_def)

lemma fencedReply_block: "fencedBlock fencedReply = Some adviceObject"
  by (simp add: fencedReply_def adviceObject_def extract_eval)

lemma proseReply_block: "fencedBlock proseReply = None"
  by (simp add: proseReply_def adviceObject_def extract_eval)

lemma proseReply_span: "braceSpan proseReply = adviceObject"
  by (simp add: proseReply_def adviceObject_def extract_eval)

lemma noJsonReply_block: "fencedBlock noJsonReply = None"
  by (simp add: noJsonReply_def extract_eval)

lemma noJsonReply_span: "braceSpan noJsonReply = []"
  by (simp add: noJsonReply_def extract_eval)

theorem json_extraction_preference_witness:
  "fencedBlock fencedReply = Some adviceObject
   \<and> jsonString fencedReply = adviceObject
   \<and> fencedBlock proseReply = None
   \<and> braceSpan proseReply = adviceObject
   \<and> jsonString proseReply = adviceObject
   \<and> reachesRequest (examplePlatform (Inr (Some noJsonReply)) (Some adviceParsed) :: (unit, unit) platform)
        (js ''  hello '')
   \<and> fencedBlock noJsonReply = None
   \<and> braceSpan noJsonReply = []
   \<and> generateRobotFromPrompt (examplePlatform (Inr (Some noJsonReply)) (Some adviceParsed))
        (js ''  hello '') () ()
       = (None, [theRequest (js ''  hello '') () ()])"
proof -
  let ?P = "examplePlatform (Inr (Some noJsonReply)) (Some adviceParsed) :: (unit, unit) platform"
  have r: "reachesRequest ?P (js ''  hello '')"
    by (rule reaches_hello)
  have g: "generateContent ?P (theRequest (js ''  hello '') () ()) = Inr (Some noJsonReply)"
    by (simp add: examplePlatform_def)
  have "jsonString fencedReply = adviceObject"
    using json_extraction_preference [of fencedReply adviceObject ?P "js ''  hello ''" "()" "()"]
      fencedReply_block by simp
  moreover have "jsonString proseReply = adviceObject"
    using json_extraction_preference [of proseReply adviceObject ?P "js ''  hello ''" "()" "()"]
      proseReply_block proseReply_span by simp
  moreover have "generateRobotFromPrompt ?P (js ''  hello '') () ()
                   = (None, [theRequest (js ''  hello '') () ()])"
    using json_extraction_preference [of noJsonReply adviceObject ?P "js ''  hello ''" "()" "()"]
      r g noJsonReply_block noJsonReply_span by simp
  ultimately show ?thesis
    using r fencedReply_block proseReply_block proseReply_span noJsonReply_block noJsonReply_span
    by simp
qed

text \<open>
  C10. The reply \<open>emptyFenceReply\<close> holds a fenced block with nothing in it, followed by
  a JSON object in braces. The regular expression matches and captures the empty string,
  the span from \<open>{\<close> to \<open>}\<close> (the whole object) is not tried, and the call returns
  \<open>null\<close> even though \<open>JSON.parse\<close> would have accepted the object.
\<close>

theorem empty_fence_no_fallback:
  "jsonBlockMatch emptyFenceReply = Some []
   \<and> braceSpan emptyFenceReply = adviceObject
   \<and> jsonString emptyFenceReply = []
   \<and> generateRobotFromPrompt (examplePlatform (Inr (Some emptyFenceReply)) (Some adviceParsed))
        (js ''  hello '') () ()
       = (None, [theRequest (js ''  hello '') () ()])"
proof -
  have b: "fencedBlock emptyFenceReply = Some []"
    by (simp add: emptyFenceReply_def adviceObject_def extract_eval)
  have s: "braceSpan emptyFenceReply = adviceObject"
    by (simp add: emptyFenceReply_def adviceObject_def extract_eval)
  have j: "jsonString emptyFenceReply = []"
    by (simp add: jsonString_eq b)
  have "tryBlock (examplePlatform (Inr (Some emptyFenceReply)) (Some adviceParsed))
          (theRequest (js ''  hello '') () ()) = Inr None"
    by (simp add: tryBlock_def examplePlatform_def j)
  then show ?thesis
    by (simp add: jsonBlockMatch_fencedBlock b s j generate_reaches [OF reaches_hello])
qed

section \<open>Failure handling on examples\<close>

lemma mapResult_nullLink: "mapResult ns nullLinkReply = Inl TypeError"
  by (simp add: mapResult_def nullLinkReply_def getProp_def isNullish_def field_def js_def
      finalRobotState_def newLinks_def setEntry_def)

theorem failures_become_null_witness:
  "reachesRequest (examplePlatform (Inl ServiceError) None) (js ''  hello '')
   \<and> generateRobotFromPrompt (examplePlatform (Inl ServiceError) None) (js ''  hello '') () ()
       = (None, [theRequest (js ''  hello '') () ()])
   \<and> generateRobotFromPrompt (examplePlatform (Inr None) None) (js ''  hello '') () ()
       = (None, [theRequest (js ''  hello '') () ()])
   \<and> generateRobotFromPrompt (examplePlatform (Inr (Some (js ''{}''))) None) (js ''  hello '') () ()
       = (None, [theRequest (js ''  hello '') () ()])
   \<and> mapResult (\<lambda>r. js ''0'') nullLinkReply = Inl TypeError
   \<and> generateRobotFromPrompt (examplePlatform (Inr (Some (js ''{}''))) (Some nullLinkReply))
        (js ''  hello '') () ()
       = (None, [theRequest (js ''  hello '') () ()])"
  using reaches_hello [of "Inl ServiceError" None]
    failures_become_null [OF reaches_hello, of "Inl ServiceError" None "()" "()" ServiceError]
    failures_become_null [OF reaches_hello, of "Inr None" None "()" "()"]
    failures_become_null [OF reaches_hello, of "Inr (Some (js ''{}''))" None "()" "()" _ "js ''{}''"]
    failures_become_null [OF reaches_hello, of "Inr (Some (js ''{}''))" "Some nullLinkReply" "()" "()" _
       "js ''{}''" nullLinkReply TypeError]
    mapResult_nullLink
  by (simp add: examplePlatform_def)

section \<open>Ids of the mapped records\<close>

lemma set_update_cases:
  "(k, v) \<in> set (AList.update k' v' al) \<Longrightarrow> (k, v) = (k', v') \<or> (k, v) \<in> set al"
  by (induction al) (auto split: if_splits)

lemma forEach_entries:
  assumes "forEach ns record ds entries = Inr entries'" and "(key, rec) \<in> set entries'"
  shows "(key, rec) \<in> set entries
         \<or> (\<exists>d \<in> set ds. \<not> isNullish d \<and> rec = record d
                \<and> toPropertyKey ns (field d ''id'') = Inr key \<and> key \<noteq> js ''__proto__'')"
  using assms
proof (induction ds arbitrary: entries)
  case Nil
  then show ?case by simp
next
  case (Cons d ds)
  from Cons.prems(1) obtain mid where
    s: "setEntry ns record d entries = Inr mid" and f: "forEach ns record ds mid = Inr entries'"
    by (auto split: sum.splits)
  from s obtain k where n: "\<not> isNullish d" and k: "toPropertyKey ns (field d ''id'') = Inr k"
    and mid: "mid = entries \<or> k \<noteq> js ''__proto__'' \<and> mid = AList.update k (record d) entries"
    by (auto simp: setEntry_def split: if_splits sum.splits)
  from Cons.IH [OF f Cons.prems(2)] show ?case
  proof
    assume "(key, rec) \<in> set mid"
    with mid have "(key, rec) = (k, record d) \<and> k \<noteq> js ''__proto__'' \<or> (key, rec) \<in> set entries"
      by (auto dest: set_update_cases)
    then show ?thesis using n k by auto
  next
    assume "\<exists>d \<in> set ds. \<not> isNullish d \<and> rec = record d
              \<and> toPropertyKey ns (field d ''id'') = Inr key \<and> key \<noteq> js ''__proto__''"
    then show ?thesis by auto
  qed
qed

lemma linkRecord_id: "field (linkRecord d) ''id'' = field d ''id''"
  by (simp add: linkRecord_def field_JObj js_def Let_def)

lemma jointRecord_id: "field (jointRecord d) ''id'' = field d ''id''"
  by (simp add: jointRecord_def field_JObj js_def)

lemma finalRobotState_links:
  assumes "finalRobotState ns data = Inr rd"
  shows "\<exists>links. newLinks ns data = Inr links \<and> field rd ''links'' = JObj links"
  using assms
  by (auto simp: finalRobotState_def field_JObj js_def split: sum.splits)

lemma finalRobotState_joints:
  assumes "finalRobotState ns data = Inr rd"
  shows "\<exists>joints. newJoints ns data = Inr joints \<and> field rd ''joints'' = JObj joints"
  using assms
  by (auto simp: finalRobotState_def field_JObj js_def split: sum.splits)

lemma newLinks_entries:
  assumes "newLinks ns data = Inr links" and "(key, rec) \<in> set links"
  shows "\<exists>d \<in> set (elementsOf (field data ''links'')).
            rec = linkRecord d \<and> toPropertyKey ns (field d ''id'') = Inr key
            \<and> key \<noteq> js ''__proto__''"
proof (cases "field data ''links''")
  case (JArr ls)
  with assms(1) have "forEach ns linkRecord ls [] = Inr links"
    by (simp add: newLinks_def)
  from forEach_entries [OF this assms(2)] JArr show ?thesis
    by (auto simp: elementsOf_def)
qed (use assms in \<open>auto simp: newLinks_def\<close>)

lemma newJoints_entries:
  assumes "newJoints ns data = Inr joints" and "(key, rec) \<in> set joints"
  shows "\<exists>d \<in> set (elementsOf (field data ''joints'')).
            rec = jointRecord d \<and> toPropertyKey ns (field d ''id'') = Inr key
            \<and> key \<noteq> js ''__proto__''"
proof (cases "field data ''joints''")
  case (JArr ls)
  with assms(1) have "forEach ns jointRecord ls [] = Inr joints"
    by (simp add: newJoints_def)
  from forEach_entries [OF this assms(2)] JArr show ?thesis
    by (auto simp: elementsOf_def)
qed (use assms in \<open>auto simp: newJoints_def\<close>)

lemma mapResult_robotData:
  assumes "mapResult ns result = Inr r"
  shows "robotData r =
           (if truthy (field result ''robotData'')
            then (case finalRobotState ns (field result ''robotData'') of
                    Inl e \<Rightarrow> None | Inr s \<Rightarrow> Some s)
            else None)"
    and "truthy (field result ''robotData'') \<Longrightarrow>
           \<exists>s. finalRobotState ns (field result ''robotData'') = Inr s"
  using assms
  by (auto simp: mapResult_def getProp_def split: if_splits sum.splits)

lemma tryBlock_reply:
  assumes "generateContent P req = Inr (Some text)" and "JSON_parse P (jsonString text) = Some result"
    and "tryBlock P req = Inr (Some r)"
  shows "mapResult (Number_toString P) result = Inr r"
  using assms by (auto simp: tryBlock_def split: if_splits sum.splits)

lemma generate_with_robotData:
  assumes "generateRobotFromPrompt P prompt currentRobot motorLibrary = (Some r, reqs)"
    and "robotData r = Some rd"
  shows "tryBlock P (theRequest prompt currentRobot motorLibrary) = Inr (Some r)"
  using assms
  by (auto simp: generateRobotFromPrompt_def split: option.splits if_splits sum.splits)

lemma nonEmptyString_key:
  assumes "nonEmptyString v" and "toPropertyKey ns v = Inr key"
  shows "v = JStr key \<and> key \<noteq> []"
  using assms by (cases v) (auto simp: nonEmptyString_def)

text \<open>
  C8, as amended. In every result that carries robot data, every link record and every
  joint record is the record of a descriptor of the parsed reply: it has that
  descriptor's id, unchanged and unchecked, and is stored under the string conversion of
  that id, which is never the key \<open>__proto__\<close> (an id \<open>__proto__\<close> leaves no entry).
  So a record whose descriptor has a non-empty string as its id has that non-empty string
  as its id and as its key, whatever the ids of the other descriptors are.
\<close>

theorem record_ids_from_descriptors:
  assumes "generateRobotFromPrompt P prompt currentRobot motorLibrary = (Some r, reqs)"
    and "robotData r = Some rd"
    and "generateContent P (theRequest prompt currentRobot motorLibrary) = Inr (Some text)"
    and "JSON_parse P (jsonString text) = Some result"
  shows "(\<forall>(key, rec) \<in> set (entriesOf (field rd ''links'')).
            \<exists>d \<in> set (elementsOf (field (field result ''robotData'') ''links'')).
              rec = linkRecord d
              \<and> field rec ''id'' = field d ''id''
              \<and> toPropertyKey (Number_toString P) (field d ''id'') = Inr key
              \<and> key \<noteq> js ''__proto__''
              \<and> (nonEmptyString (field d ''id'') \<longrightarrow> field rec ''id'' = JStr key \<and> key \<noteq> []))
       \<and> (\<forall>(key, rec) \<in> set (entriesOf (field rd ''joints'')).
            \<exists>d \<in> set (elementsOf (field (field result ''robotData'') ''joints'')).
              rec = jointRecord d
              \<and> field rec ''id'' = field d ''id''
              \<and> toPropertyKey (Number_toString P) (field d ''id'') = Inr key
              \<and> key \<noteq> js ''__proto__''
              \<and> (nonEmptyString (field d ''id'') \<longrightarrow> field rec ''id'' = JStr key \<and> key \<noteq> []))"
proof -
  let ?ns = "Number_toString P" and ?data = "field result ''robotData''"
  have m: "mapResult ?ns result = Inr r"
    using tryBlock_reply [OF assms(3,4) generate_with_robotData [OF assms(1,2)]] .
  have fin: "finalRobotState ?ns ?data = Inr rd"
    using mapResult_robotData(1) [OF m] assms(2)
    by (auto split: if_splits sum.splits)
  from finalRobotState_links [OF fin] obtain links where
    l: "newLinks ?ns ?data = Inr links" "field rd ''links'' = JObj links" by blast
  from finalRobotState_joints [OF fin] obtain joints where
    j: "newJoints ?ns ?data = Inr joints" "field rd ''joints'' = JObj joints" by blast
  have "\<exists>d \<in> set (elementsOf (field ?data ''links'')).
          rec = linkRecord d
          \<and> field rec ''id'' = field d ''id''
          \<and> toPropertyKey ?ns (field d ''id'') = Inr key
          \<and> key \<noteq> js ''__proto__''
          \<and> (nonEmptyString (field d ''id'') \<longrightarrow> field rec ''id'' = JStr key \<and> key \<noteq> [])"
    if "(key, rec) \<in> set links" for key rec
  proof -
    from newLinks_entries [OF l(1) that] obtain d where
      d: "d \<in> set (elementsOf (field ?data ''links''))" "rec = linkRecord d"
         "toPropertyKey ?ns (field d ''id'') = Inr key" "key \<noteq> js ''__proto__''" by blast
    have "field rec ''id'' = JStr key \<and> key \<noteq> []" if "nonEmptyString (field d ''id'')"
      using nonEmptyString_key [OF that d(3)] by (simp add: d(2) linkRecord_id)
    with d show ?thesis
      by (auto simp: linkRecord_id)
  qed
  moreover
  have "\<exists>d \<in> set (elementsOf (field ?data ''joints'')).
          rec = jointRecord d
          \<and> field rec ''id'' = field d ''id''
          \<and> toPropertyKey ?ns (field d ''id'') = Inr key
          \<and> key \<noteq> js ''__proto__''
          \<and> (nonEmptyString (field d ''id'') \<longrightarrow> field rec ''id'' = JStr key \<and> key \<noteq> [])"
    if "(key, rec) \<in> set joints" for key rec
  proof -
    from newJoints_entries [OF j(1) that] obtain d where
      d: "d \<in> set (elementsOf (field ?data ''joints''))" "rec = jointRecord d"
         "toPropertyKey ?ns (field d ''id'') = Inr key" "key \<noteq> js ''__proto__''" by blast
    have "field rec ''id'' = JStr key \<and> key \<noteq> []" if "nonEmptyString (field d ''id'')"
      using nonEmptyString_key [OF that d(3)] by (simp add: d(2) jointRecord_id)
    with d show ?thesis
      by (auto simp: jointRecord_id)
  qed
  ultimately show ?thesis
    by (simp add: l(2) j(2) entriesOf_def case_prod_beta)
qed

lemma jsonString_braces: "jsonString (js ''{}'') = js ''{}''"
  by (simp add: jsonString_eq extract_eval)

lemma lidar_no_trigger: "trim (js ''add a lidar'') \<notin> b64DecodeUnicode ` fst ` set EGGS"
  by (simp add: decoded_keys decodedEGGS_eq trim_def trimEnd_def isWhiteSpace_def js_def)

lemma reaches_lidar: "reachesRequest (examplePlatform reply parsed) (js ''add a lidar'')"
  using lidar_no_trigger
  by (simp add: reachesRequest_def eggLoop_None_iff examplePlatform_def js_def)

lemma tryBlock_example:
  "tryBlock (examplePlatform (Inr (Some (js ''{}''))) (Some result)) req =
     (case mapResult (\<lambda>r. js ''0'') result of Inl e \<Rightarrow> Inl e | Inr r \<Rightarrow> Inr (Some r))"
  by (simp add: tryBlock_def examplePlatform_def jsonString_braces) (simp add: js_def)

lemma finalRobotState_good: "finalRobotState ns goodData = Inr goodRobot"
  by (simp add: finalRobotState_def newLinks_def newJoints_def goodData_def goodRobot_def
      field_JObj setEntry_def isNullish_def goodLink_def goodJoint_def orElse_def)
     (simp add: js_def)

lemma mapResult_good:
  "mapResult ns (goodReply action) =
     Inr \<lparr>explanation = JStr (js ''ok''), actionType = JStr (js action),
          robotData = Some goodRobot\<rparr>"
proof -
  have d: "field (goodReply action) ''robotData'' = goodData"
          "field (goodReply action) ''explanation'' = JStr (js ''ok'')"
          "field (goodReply action) ''actionType'' = JStr (js action)"
    by (simp_all add: goodReply_def field_JObj) (simp_all add: js_def)
  have t: "truthy goodData" by (simp add: goodData_def)
  show ?thesis
    by (simp add: mapResult_def getProp_def d t finalRobotState_good)
       (simp add: goodReply_def isNullish_def)
qed


lemma generate_example:
  "generateRobotFromPrompt (examplePlatform (Inr (Some (js ''{}''))) (Some result))
      (js ''  hello '') () () =
     ((case mapResult (\<lambda>r. js ''0'') result of Inl e \<Rightarrow> None | Inr r \<Rightarrow> Some r),
      [theRequest (js ''  hello '') () ()])"
  by (simp add: generate_reaches [OF reaches_hello] tryBlock_example split: sum.splits)

lemma mapResult_mixed:
  "mapResult (\<lambda>r. js ''0'') mixedReply =
     Inr \<lparr>explanation = JStr (js ''ok''), actionType = JStr (js ''generation''),
          robotData = Some mixedRobot\<rparr>"
proof -
  let ?data = "JObj [(js ''links'', JArr [goodLink]), (js ''joints'', JArr [noIdJoint])]"
  have d: "field mixedReply ''robotData'' = ?data"
          "field mixedReply ''explanation'' = JStr (js ''ok'')"
          "field mixedReply ''actionType'' = JStr (js ''generation'')"
    by (simp_all add: mixedReply_def field_JObj) (simp_all add: js_def)
  have f: "field ?data ''links'' = JArr [goodLink]" "field ?data ''joints'' = JArr [noIdJoint]"
          "field ?data ''name'' = JUndefined" "field ?data ''rootLinkId'' = JUndefined"
    by (simp_all add: field_JObj) (simp_all add: js_def)
  have i: "field goodLink ''id'' = JStr (js ''l1'')" "field noIdJoint ''id'' = JUndefined"
    by (simp_all add: goodLink_def noIdJoint_def field_JObj) (simp_all add: js_def)
  have n: "\<not> isNullish goodLink" "\<not> isNullish noIdJoint"
    by (simp_all add: goodLink_def noIdJoint_def isNullish_def)
  have fin: "finalRobotState (\<lambda>r. js ''0'') ?data = Inr mixedRobot"
    by (simp add: finalRobotState_def newLinks_def newJoints_def f setEntry_def i n orElse_def
        mixedRobot_def)
       (simp add: js_def)
  show ?thesis
    by (simp add: mapResult_def getProp_def d fin) (simp add: mixedReply_def isNullish_def)
qed

theorem record_ids_from_descriptors_witness:
  "generateRobotFromPrompt (examplePlatform (Inr (Some (js ''{}''))) (Some mixedReply))
      (js ''  hello '') () ()
     = (Some \<lparr>explanation = JStr (js ''ok''), actionType = JStr (js ''generation''),
              robotData = Some mixedRobot\<rparr>, [theRequest (js ''  hello '') () ()])
   \<and> elementsOf (field (field mixedReply ''robotData'') ''links'') = [goodLink]
   \<and> elementsOf (field (field mixedReply ''robotData'') ''joints'') = [noIdJoint]
   \<and> entriesOf (field mixedRobot ''links'') = [(js ''l1'', linkRecord goodLink)]
   \<and> entriesOf (field mixedRobot ''joints'') = [(js ''undefined'', jointRecord noIdJoint)]
   \<and> nonEmptyString (field goodLink ''id'')
   \<and> \<not> nonEmptyString (field noIdJoint ''id'')
   \<and> field (linkRecord goodLink) ''id'' = JStr (js ''l1'')
   \<and> js ''l1'' \<noteq> []
   \<and> js ''l1'' \<noteq> js ''__proto__''
   \<and> field (jointRecord noIdJoint) ''id'' = field noIdJoint ''id''
   \<and> toPropertyKey (\<lambda>r. js ''0'') (field noIdJoint ''id'') = Inr (js ''undefined'')"
proof -
  let ?P = "examplePlatform (Inr (Some (js ''{}''))) (Some mixedReply) :: (unit, unit) platform"
  let ?r = "\<lparr>explanation = JStr (js ''ok''), actionType = JStr (js ''generation''),
             robotData = Some mixedRobot\<rparr>"
  have g: "generateRobotFromPrompt ?P (js ''  hello '') () ()
             = (Some ?r, [theRequest (js ''  hello '') () ()])"
    by (simp add: generate_example mapResult_mixed)
  have rd: "robotData ?r = Some mixedRobot" by simp
  have c: "generateContent ?P (theRequest (js ''  hello '') () ()) = Inr (Some (js ''{}''))"
    by (simp add: examplePlatform_def)
  have p: "JSON_parse ?P (jsonString (js ''{}'')) = Some mixedReply"
    by (simp add: examplePlatform_def)
  have ns: "Number_toString ?P = (\<lambda>r. js ''0'')"
    by (simp add: examplePlatform_def)
  have el: "elementsOf (field (field mixedReply ''robotData'') ''links'') = [goodLink]"
           "elementsOf (field (field mixedReply ''robotData'') ''joints'') = [noIdJoint]"
    by (simp_all add: mixedReply_def field_JObj elementsOf_def) (simp_all add: js_def)
  have en: "entriesOf (field mixedRobot ''links'') = [(js ''l1'', linkRecord goodLink)]"
           "entriesOf (field mixedRobot ''joints'') = [(js ''undefined'', jointRecord noIdJoint)]"
    by (simp_all add: mixedRobot_def field_JObj entriesOf_def) (simp_all add: js_def)
  have ids: "nonEmptyString (field goodLink ''id'')" "\<not> nonEmptyString (field noIdJoint ''id'')"
    by (simp_all add: goodLink_def noIdJoint_def field_JObj nonEmptyString_def)
       (simp_all add: js_def)
  from record_ids_from_descriptors [OF g rd c p]
  have "field (linkRecord goodLink) ''id'' = JStr (js ''l1'')
        \<and> js ''l1'' \<noteq> []
        \<and> js ''l1'' \<noteq> js ''__proto__''
        \<and> field (jointRecord noIdJoint) ''id'' = field noIdJoint ''id''
        \<and> toPropertyKey (\<lambda>r. js ''0'') (field noIdJoint ''id'') = Inr (js ''undefined'')"
    using ids(1) by (auto simp: en el ns)
  with g el en ids show ?thesis by simp
qed

text \<open>
  The reply \<open>emptyIdReply\<close> has a link whose id is the empty string and a joint without
  an id: the result carries a link record with the empty id under the empty key, and a
  joint record with the id \<open>undefined\<close> under the key "undefined".
\<close>

lemma mapResult_emptyId:
  "mapResult (\<lambda>r. js ''0'') emptyIdReply =
     Inr \<lparr>explanation = JStr (js ''ok''), actionType = JStr (js ''generation''),
          robotData =
            Some (JObj [(js ''name'', JStr (js ''modified_robot'')),
                        (js ''links'', JObj [([], linkRecord emptyIdLink)]),
                        (js ''joints'', JObj [(js ''undefined'', jointRecord noIdJoint)]),
                        (js ''rootLinkId'', JUndefined)])\<rparr>"
proof -
  let ?data = "JObj [(js ''links'', JArr [emptyIdLink]), (js ''joints'', JArr [noIdJoint])]"
  have d: "field emptyIdReply ''robotData'' = ?data"
          "field emptyIdReply ''explanation'' = JStr (js ''ok'')"
          "field emptyIdReply ''actionType'' = JStr (js ''generation'')"
    by (simp_all add: emptyIdReply_def field_JObj) (simp_all add: js_def)
  have f: "field ?data ''links'' = JArr [emptyIdLink]" "field ?data ''joints'' = JArr [noIdJoint]"
          "field ?data ''name'' = JUndefined" "field ?data ''rootLinkId'' = JUndefined"
    by (simp_all add: field_JObj) (simp_all add: js_def)
  have i: "field emptyIdLink ''id'' = JStr []" "field noIdJoint ''id'' = JUndefined"
    by (simp_all add: emptyIdLink_def noIdJoint_def field_JObj) (simp_all add: js_def)
  have n: "\<not> isNullish emptyIdLink" "\<not> isNullish noIdJoint"
    by (simp_all add: emptyIdLink_def noIdJoint_def isNullish_def)
  have fin: "finalRobotState (\<lambda>r. js ''0'') ?data =
               Inr (JObj [(js ''name'', JStr (js ''modified_robot'')),
                          (js ''links'', JObj [([], linkRecord emptyIdLink)]),
                          (js ''joints'', JObj [(js ''undefined'', jointRecord noIdJoint)]),
                          (js ''rootLinkId'', JUndefined)])"
    by (simp add: finalRobotState_def newLinks_def newJoints_def f setEntry_def i n orElse_def)
       (simp add: js_def)
  show ?thesis
    by (simp add: mapResult_def getProp_def d fin) (simp add: emptyIdReply_def isNullish_def)
qed

theorem empty_id_counterexample:
  "generateRobotFromPrompt (examplePlatform (Inr (Some (js ''{}''))) (Some emptyIdReply))
      (js ''  hello '') () ()
     = (Some \<lparr>explanation = JStr (js ''ok''), actionType = JStr (js ''generation''),
              robotData =
                Some (JObj [(js ''name'', JStr (js ''modified_robot'')),
                            (js ''links'', JObj [([], linkRecord emptyIdLink)]),
                            (js ''joints'', JObj [(js ''undefined'', jointRecord noIdJoint)]),
                            (js ''rootLinkId'', JUndefined)])\<rparr>,
        [theRequest (js ''  hello '') () ()])
   \<and> field (linkRecord emptyIdLink) ''id'' = JStr []
   \<and> field (jointRecord noIdJoint) ''id'' = JUndefined
   \<and> \<not> nonEmptyString (field (linkRecord emptyIdLink) ''id'')
   \<and> \<not> nonEmptyString (field (jointRecord noIdJoint) ''id'')"
proof -
  have i: "field emptyIdLink ''id'' = JStr []" "field noIdJoint ''id'' = JUndefined"
    by (simp_all add: emptyIdLink_def noIdJoint_def field_JObj) (simp_all add: js_def)
  show ?thesis
    by (simp add: generate_example mapResult_emptyId linkRecord_id jointRecord_id i
        nonEmptyString_def)
qed

section \<open>The mapping as a function of the payload\<close>

text \<open>
  C9. Two calls that reach the request and whose parsed replies carry the same
  \<open>robotData\<close> payload return the same robot data, whatever their prompts, current
  robots, motor libraries, credentials, reply texts and the other parts of the parsed
  replies are: the mapped records are a function of the payload alone.
\<close>

theorem mapping_depends_on_payload_only:
  assumes "reachesRequest P1 prompt1" and "reachesRequest P2 prompt2"
    and "generateContent P1 (theRequest prompt1 robot1 library1) = Inr (Some text1)"
    and "generateContent P2 (theRequest prompt2 robot2 library2) = Inr (Some text2)"
    and "JSON_parse P1 (jsonString text1) = Some result1"
    and "JSON_parse P2 (jsonString text2) = Some result2"
    and "field result1 ''robotData'' = field result2 ''robotData''"
    and "Number_toString P1 = Number_toString P2"
    and "generateRobotFromPrompt P1 prompt1 robot1 library1 = (Some r1, reqs1)"
    and "generateRobotFromPrompt P2 prompt2 robot2 library2 = (Some r2, reqs2)"
  shows "robotData r1 = robotData r2"
proof -
  have "tryBlock P1 (theRequest prompt1 robot1 library1) = Inr (Some r1)"
    using assms(9) by (simp add: generate_reaches [OF assms(1)] split: sum.splits)
  from tryBlock_reply [OF assms(3,5) this]
  have m1: "mapResult (Number_toString P1) result1 = Inr r1" .
  have "tryBlock P2 (theRequest prompt2 robot2 library2) = Inr (Some r2)"
    using assms(10) by (simp add: generate_reaches [OF assms(2)] split: sum.splits)
  from tryBlock_reply [OF assms(4,6) this]
  have m2: "mapResult (Number_toString P2) result2 = Inr r2" .
  show ?thesis
    by (simp add: mapResult_robotData(1) [OF m1] mapResult_robotData(1) [OF m2] assms(7,8))
qed

theorem mapping_depends_on_payload_only_witness:
  "reachesRequest (examplePlatform (Inr (Some (js ''{}''))) (Some (goodReply ''generation''))
                     :: (unit, unit) platform) (js ''  hello '')
   \<and> reachesRequest (examplePlatform (Inr (Some proseReply)) (Some (goodReply ''modification''))
                     :: (nat, bool) platform) (js ''add a lidar'')
   \<and> field (goodReply ''generation'') ''robotData'' = field (goodReply ''modification'') ''robotData''
   \<and> generateRobotFromPrompt (examplePlatform (Inr (Some (js ''{}''))) (Some (goodReply ''generation'')))
        (js ''  hello '') () ()
       = (Some \<lparr>explanation = JStr (js ''ok''), actionType = JStr (js ''generation''),
                robotData = Some goodRobot\<rparr>, [theRequest (js ''  hello '') () ()])
   \<and> generateRobotFromPrompt (examplePlatform (Inr (Some proseReply)) (Some (goodReply ''modification'')))
        (js ''add a lidar'') (7 :: nat) True
       = (Some \<lparr>explanation = JStr (js ''ok''), actionType = JStr (js ''modification''),
                robotData = Some goodRobot\<rparr>, [theRequest (js ''add a lidar'') 7 True])
   \<and> robotData \<lparr>explanation = JStr (js ''ok''), actionType = JStr (js ''generation''),
                 robotData = Some goodRobot\<rparr>
       = robotData \<lparr>explanation = JStr (js ''ok''), actionType = JStr (js ''modification''),
                    robotData = Some goodRobot\<rparr>"
proof -
  let ?P1 = "examplePlatform (Inr (Some (js ''{}''))) (Some (goodReply ''generation''))
               :: (unit, unit) platform"
  let ?P2 = "examplePlatform (Inr (Some proseReply)) (Some (goodReply ''modification''))
               :: (nat, bool) platform"
  let ?r1 = "\<lparr>explanation = JStr (js ''ok''), actionType = JStr (js ''generation''),
              robotData = Some goodRobot\<rparr>"
  let ?r2 = "\<lparr>explanation = JStr (js ''ok''), actionType = JStr (js ''modification''),
              robotData = Some goodRobot\<rparr>"
  have r1: "reachesRequest ?P1 (js ''  hello '')" by (rule reaches_hello)
  have r2: "reachesRequest ?P2 (js ''add a lidar'')" by (rule reaches_lidar)
  have c1: "generateContent ?P1 (theRequest (js ''  hello '') () ()) = Inr (Some (js ''{}''))"
    by (simp add: examplePlatform_def)
  have c2: "generateContent ?P2 (theRequest (js ''add a lidar'') 7 True) = Inr (Some proseReply)"
    by (simp add: examplePlatform_def)
  have p1: "JSON_parse ?P1 (jsonString (js ''{}'')) = Some (goodReply ''generation'')"
    by (simp add: examplePlatform_def)
  have p2: "JSON_parse ?P2 (jsonString proseReply) = Some (goodReply ''modification'')"
    by (simp add: examplePlatform_def)
  have d: "field (goodReply ''generation'') ''robotData''
             = field (goodReply ''modification'') ''robotData''"
    by (simp add: goodReply_def field_JObj) (simp add: js_def)
  have ns: "Number_toString ?P1 = Number_toString ?P2"
    by (simp add: examplePlatform_def)
  have g1: "generateRobotFromPrompt ?P1 (js ''  hello '') () ()
              = (Some ?r1, [theRequest (js ''  hello '') () ()])"
    by (simp add: generate_example mapResult_good)
  have j2: "jsonString proseReply = adviceObject"
    by (simp add: jsonString_eq proseReply_block proseReply_span)
  have a: "adviceObject \<noteq> []" by (simp add: adviceObject_def)
  have "tryBlock ?P2 (theRequest (js ''add a lidar'') 7 True) = Inr (Some ?r2)"
    by (simp add: tryBlock_def c2 j2 a p2 [unfolded j2] mapResult_good)
       (simp add: proseReply_def examplePlatform_def js_def)
  then have g2: "generateRobotFromPrompt ?P2 (js ''add a lidar'') 7 True
              = (Some ?r2, [theRequest (js ''add a lidar'') 7 True])"
    by (simp add: generate_reaches [OF r2])
  from mapping_depends_on_payload_only [OF r1 r2 c1 c2 p1 p2 d ns g1 g2]
  have "robotData ?r1 = robotData ?r2" .
  with r1 r2 d g1 g2 show ?thesis by blast
qed

end
